theory Spec2Isabelle
  imports Complex_Main
begin

section \<open>The day-cycle engine of the Oregon Trail game\<close>

text \<open>
  A shallow embedding of \<^verbatim>\<open>src/oregon_trail/game.py\<close>. Every method of the class
  \<^verbatim>\<open>Game\<close> becomes a function that takes the game object and returns the game
  object it leaves behind; a method that can raise returns its result next to that game, so
  that the mutations made before the \<^verbatim>\<open>raise\<close> stay visible. Python's private
  names lose their leading underscore (\<^verbatim>\<open>_travel\<close> is \<open>travel\<close>).

  Conventions of the model:
  \<^item> Python's unbounded \<^verbatim>\<open>int\<close> is \<open>int\<close>;
  \<^item> a \<^verbatim>\<open>float\<close> is the rational number its decimal literal denotes, and float
    arithmetic is exact arithmetic on \<open>rat\<close>;
  \<^item> a \<^verbatim>\<open>str\<close> is a \<open>string\<close>, one \<open>char\<close> per code point (code points
    below 256 only);
  \<^item> the keyword arguments of \<^verbatim>\<open>perform_action\<close> have the types of the handlers'
    annotations (\<^verbatim>\<open>str\<close>, \<^verbatim>\<open>Optional[int]\<close>);
  \<^item> \<^verbatim>\<open>random.Random\<close> belongs to Python's library, not to the game: the engine is
    parametrised by the two primitive draws of a random source over an arbitrary state type.
\<close>

subsection \<open>Strings\<close>

definition is_space :: "char \<Rightarrow> bool" where
  \<comment> \<open>\<^verbatim>\<open>str.isspace\<close> on one code point below 256\<close>
  "is_space c =
     (let n = (of_char c :: nat)
      in (9 \<le> n \<and> n \<le> 13) \<or> (28 \<le> n \<and> n \<le> 32) \<or> n = 133 \<or> n = 160)"

definition lower_char :: "char \<Rightarrow> char" where
  "lower_char c =
     (let n = (of_char c :: nat)
      in if (65 \<le> n \<and> n \<le> 90) \<or> (192 \<le> n \<and> n \<le> 222 \<and> n \<noteq> 215)
         then char_of (n + 32) else c)"

definition lower :: "string \<Rightarrow> string" where
  "lower s = map lower_char s"

definition strip :: "string \<Rightarrow> string" where
  "strip s = rev (dropWhile is_space (rev (dropWhile is_space s)))"

fun join :: "string \<Rightarrow> string list \<Rightarrow> string" where
  "join sep [] = []"
| "join sep [x] = x"
| "join sep (x # y # ys) = x @ sep @ join sep (y # ys)"

definition digit_char :: "nat \<Rightarrow> char" where
  "digit_char d = char_of (48 + d)"

fun digits10 :: "nat \<Rightarrow> string" where
  "digits10 n = (if n < 10 then [digit_char n] else digits10 (n div 10) @ [digit_char (n mod 10)])"

declare digits10.simps [simp del]

definition str_int :: "int \<Rightarrow> string" where
  \<comment> \<open>\<^verbatim>\<open>str(i)\<close>, which is what an f-string writes for an integer\<close>
  "str_int i = (if i < 0 then CHR ''-'' # digits10 (nat (- i)) else digits10 (nat i))"

definition apostrophe :: string where
  "apostrophe = [CHR 0x27]"

subsection \<open>Numbers\<close>

definition py_round :: "rat \<Rightarrow> int" where
  \<comment> \<open>\<^verbatim>\<open>round(x)\<close> with one argument: to the nearest integer, a tie to the even one\<close>
  "py_round x =
     (let f = \<lfloor>x\<rfloor>; d = x - of_int f
      in if d < 1 / 2 then f else if 1 / 2 < d then f + 1 else if even f then f else f + 1)"

definition py_int :: "rat \<Rightarrow> int" where
  \<comment> \<open>\<^verbatim>\<open>int(x)\<close> of a float: truncation towards zero\<close>
  "py_int x = (if 0 \<le> x then \<lfloor>x\<rfloor> else \<lceil>x\<rceil>)"

definition dict_get :: "('k \<times> 'v) list \<Rightarrow> 'k \<Rightarrow> 'v \<Rightarrow> 'v" where
  \<comment> \<open>\<^verbatim>\<open>d.get(k, default)\<close> on a dict written as its list of items\<close>
  "dict_get d k dflt = (case map_of d k of None \<Rightarrow> dflt | Some v \<Rightarrow> v)"

subsection \<open>Configuration tables\<close>

datatype Difficulty = EASY | NORMAL | HARD

fun difficulty_value :: "Difficulty \<Rightarrow> string" where
  "difficulty_value EASY = ''easy''"
| "difficulty_value NORMAL = ''normal''"
| "difficulty_value HARD = ''hard''"

definition PACE_SPEEDS :: "(string \<times> int) list" where
  "PACE_SPEEDS = [(''slow'', 12), (''steady'', 18), (''grueling'', 24)]"

definition PACE_FOOD_MULTIPLIER :: "(string \<times> rat) list" where
  "PACE_FOOD_MULTIPLIER = [(''slow'', 8 / 10), (''steady'', 1), (''grueling'', 135 / 100)]"

definition BASE_FOOD_PER_DAY :: int where
  "BASE_FOOD_PER_DAY = 5"

definition TARGET_MILES :: int where
  "TARGET_MILES = 2000"

record settings_entry =
  cfg_food :: int
  cfg_ammo :: int
  cfg_money :: int
  cfg_event_chance :: rat
  rest_health :: int
  starvation_penalty :: int
  cfg_max_days :: int

fun DIFFICULTY_SETTINGS :: "Difficulty \<Rightarrow> settings_entry" where
  "DIFFICULTY_SETTINGS EASY =
     \<lparr>cfg_food = 300, cfg_ammo = 70, cfg_money = 1400, cfg_event_chance = 18 / 100,
      rest_health = 15, starvation_penalty = 8, cfg_max_days = 60\<rparr>"
| "DIFFICULTY_SETTINGS NORMAL =
     \<lparr>cfg_food = 240, cfg_ammo = 55, cfg_money = 1100, cfg_event_chance = 27 / 100,
      rest_health = 12, starvation_penalty = 10, cfg_max_days = 55\<rparr>"
| "DIFFICULTY_SETTINGS HARD =
     \<lparr>cfg_food = 200, cfg_ammo = 45, cfg_money = 900, cfg_event_chance = 35 / 100,
      rest_health = 9, starvation_penalty = 12, cfg_max_days = 50\<rparr>"

definition PROFESSION_BONUSES :: "(string \<times> (string \<times> int) list) list" where
  "PROFESSION_BONUSES =
     [(''banker'', [(''money'', 600)]),
      (''carpenter'', [(''ammo'', 10), (''health'', 5)]),
      (''farmer'', [(''food'', 50), (''health'', 5)]),
      (''doctor'', [(''health'', 10)])]"

definition WEATHER_OPTIONS :: "(string \<times> rat) list" where
  "WEATHER_OPTIONS =
     [(''Mild'', 1), (''Warm'', 105 / 100), (''Hot'', 9 / 10), (''Cold'', 85 / 100),
      (''Freezing'', 7 / 10), (''Stormy'', 6 / 10)]"

definition TERRAIN_OPTIONS :: "(string \<times> rat) list" where
  "TERRAIN_OPTIONS =
     [(''Plains'', 1), (''Hills'', 85 / 100), (''Mountains'', 7 / 10), (''Desert'', 75 / 100),
      (''Forest'', 9 / 10)]"

definition TRADE_ITEMS :: "string set" where
  "TRADE_ITEMS = {''food'', ''ammo''}"

subsection \<open>The data model\<close>

record TradeOffer =
  item :: string
  quantity :: int
  price :: int

definition describe :: "TradeOffer \<Rightarrow> string" where
  "describe offer =
     (let direction = (if 0 < price offer then ''buy'' else ''sell'');
          cost = \<bar>price offer\<bar>
      in if direction = ''buy''
         then ''Buy '' @ str_int (quantity offer) @ '' '' @ item offer @ '' for $'' @ str_int cost
         else ''Sell '' @ str_int (quantity offer) @ '' '' @ item offer @ '' for $'' @ str_int cost)"

record GameState =
  player_name :: string
  profession :: string
  difficulty :: Difficulty
  day :: int
  distance :: int
  food :: int
  ammo :: int
  money :: int
  health :: int
  pace :: string
  weather :: string
  terrain :: string
  alive :: bool
  won :: bool
  status :: string
  event_log :: "string list"
  trade_available :: bool

text \<open>
  What \<^verbatim>\<open>perform_action\<close> returns: the dictionary of \<^verbatim>\<open>GameState.snapshot\<close> (the
  fields of the state, the difficulty by its value string) with the two keys
  \<^verbatim>\<open>messages\<close> and \<^verbatim>\<open>trade_offers\<close> added.
\<close>

record Snapshot =
  snap_player_name :: string
  snap_profession :: string
  snap_difficulty :: string
  snap_day :: int
  snap_distance :: int
  snap_food :: int
  snap_ammo :: int
  snap_money :: int
  snap_health :: int
  snap_pace :: string
  snap_weather :: string
  snap_terrain :: string
  snap_alive :: bool
  snap_won :: bool
  snap_status :: string
  snap_event_log :: "string list"
  snap_trade_available :: bool
  snap_messages :: "string list"
  snap_trade_offers :: "string list"

definition snapshot :: "GameState \<Rightarrow> Snapshot" where
  "snapshot s =
     \<lparr>snap_player_name = player_name s, snap_profession = profession s,
      snap_difficulty = difficulty_value (difficulty s), snap_day = day s,
      snap_distance = distance s, snap_food = food s, snap_ammo = ammo s,
      snap_money = money s, snap_health = health s, snap_pace = pace s,
      snap_weather = weather s, snap_terrain = terrain s, snap_alive = alive s,
      snap_won = won s, snap_status = status s, snap_event_log = event_log s,
      snap_trade_available = trade_available s, snap_messages = [], snap_trade_offers = []\<rparr>"

datatype error = ValueError string | RuntimeError string

text \<open>
  The attributes of a \<^verbatim>\<open>Game\<close> object. \<open>rng\<close> is the state of its random source;
  \<^verbatim>\<open>self.difficulty\<close> is \<open>game_difficulty\<close>, since the state has a field of that
  name too.
\<close>

record 'r Game =
  rng :: 'r
  game_difficulty :: Difficulty
  settings :: settings_entry
  state :: GameState
  event_chance :: rat
  max_days :: int
  is_over :: bool
  current_trade_offers :: "TradeOffer list"

record Kwargs =
  kw_pace :: "string option"
  kw_ammo_spent :: "int option"
  kw_offer_index :: "int option"

subsection \<open>The random source\<close>

text \<open>
  The two draws every other method of \<^verbatim>\<open>random.Random\<close> is built from, each
  returning its value and the next state of the source: \<^verbatim>\<open>random()\<close>, a float in
  \<open>[0, 1)\<close>, and \<^verbatim>\<open>randint(a, b)\<close>, an integer in \<open>[a, b]\<close>.
\<close>

record 'r RandomSource =
  rs_random :: "'r \<Rightarrow> rat \<times> 'r"
  rs_randint :: "int \<Rightarrow> int \<Rightarrow> 'r \<Rightarrow> int \<times> 'r"

definition randint_in_range :: "'r RandomSource \<Rightarrow> bool" where
  \<comment> \<open>the library's contract for \<^verbatim>\<open>randint\<close>\<close>
  "randint_in_range R =
     (\<forall>a b r. a \<le> b \<longrightarrow> a \<le> fst (rs_randint R a b r) \<and> fst (rs_randint R a b r) \<le> b)"

definition uniform :: "'r RandomSource \<Rightarrow> rat \<Rightarrow> rat \<Rightarrow> 'r \<Rightarrow> rat \<times> 'r" where
  \<comment> \<open>\<^verbatim>\<open>uniform(a, b)\<close> is \<^verbatim>\<open>a + (b - a) * self.random()\<close>\<close>
  "uniform R a b r = (let (u, r') = rs_random R r in (a + (b - a) * u, r'))"

fun accumulate :: "int \<Rightarrow> int list \<Rightarrow> int list" where
  "accumulate acc [] = []"
| "accumulate acc (w # ws) = (acc + w) # accumulate (acc + w) ws"

definition bisect :: "int list \<Rightarrow> rat \<Rightarrow> nat \<Rightarrow> nat" where
  \<comment> \<open>\<^verbatim>\<open>bisect(a, x, 0, hi)\<close> on an increasing list: how many of the first \<open>hi\<close>
      entries are at most \<open>x\<close>\<close>
  "bisect a x hi = length (takeWhile (\<lambda>c. of_int c \<le> x) (take hi a))"

definition choices :: "'r RandomSource \<Rightarrow> 'a list \<Rightarrow> int list \<Rightarrow> 'r \<Rightarrow> 'a \<times> 'r" where
  \<comment> \<open>\<^verbatim>\<open>choices(population, weights=weights, k=1)[0]\<close>\<close>
  "choices R population weights r =
     (let cum_weights = accumulate 0 weights;
          total = of_int (last cum_weights);
          hi = length population - 1;
          (u, r') = rs_random R r
      in (population ! bisect cum_weights (u * total) hi, r'))"

text \<open>
  A concrete source for running the engine: it replays a list of numbers, one per draw.
  A draw \<open>u\<close> is read modulo 1; \<^verbatim>\<open>randint(a, b)\<close> scales it to the range. An
  exhausted list draws 0 for ever.
\<close>

definition replay_next :: "rat list \<Rightarrow> rat \<times> rat list" where
  "replay_next r = (case r of [] \<Rightarrow> (0, []) | u # us \<Rightarrow> (u - of_int \<lfloor>u\<rfloor>, us))"

definition replay :: "(rat list) RandomSource" where
  "replay =
     \<lparr>rs_random = replay_next,
      rs_randint = (\<lambda>a b r. let (u, r') = replay_next r in (a + \<lfloor>u * of_int (b - a + 1)\<rfloor>, r'))\<rparr>"

subsection \<open>Helpers of the engine\<close>

definition consume_food :: "int \<Rightarrow> 'r Game \<Rightarrow> 'r Game" where
  "consume_food amount g =
     g\<lparr>state := (state g)\<lparr>food := max 0 (food (state g) - max 0 amount)\<rparr>\<rparr>"

definition update_weather_and_terrain :: "'r RandomSource \<Rightarrow> 'r Game \<Rightarrow> 'r Game" where
  "update_weather_and_terrain R g =
     (let (w, r1) = choices R (map fst WEATHER_OPTIONS) [5, 4, 3, 3, 2, 2] (rng g);
          (t, r2) = choices R (map fst TERRAIN_OPTIONS) [5, 3, 2, 2, 3] r1
      in g\<lparr>rng := r2, state := (state g)\<lparr>weather := w, terrain := t\<rparr>\<rparr>)"

definition weather_modifier :: "'r Game \<Rightarrow> rat" where
  \<comment> \<open>the first entry of the table with the state's label, 1.0 when there is none\<close>
  "weather_modifier g = dict_get WEATHER_OPTIONS (weather (state g)) 1"

definition terrain_modifier :: "'r Game \<Rightarrow> rat" where
  "terrain_modifier g = dict_get TERRAIN_OPTIONS (terrain (state g)) 1"

definition add_resource :: "string \<Rightarrow> int \<Rightarrow> 'r Game \<Rightarrow> (error + unit) \<times> 'r Game" where
  "add_resource it amount g =
     (if it = ''food''
      then (Inr (), g\<lparr>state := (state g)\<lparr>food := max 0 (food (state g) + amount)\<rparr>\<rparr>)
      else if it = ''ammo''
      then (Inr (), g\<lparr>state := (state g)\<lparr>ammo := max 0 (ammo (state g) + amount)\<rparr>\<rparr>)
      else (Inl (ValueError ''Unknown resource type.''), g))"

definition get_resource :: "string \<Rightarrow> 'r Game \<Rightarrow> error + int" where
  "get_resource it g =
     (if it = ''food'' then Inr (food (state g))
      else if it = ''ammo'' then Inr (ammo (state g))
      else Inl (ValueError ''Unknown resource type.''))"

definition make_offer :: "'r RandomSource \<Rightarrow> 'r \<Rightarrow> TradeOffer \<times> 'r" where
  \<comment> \<open>one round of the loop of \<^verbatim>\<open>_maybe_prepare_trade_post\<close>\<close>
  "make_offer R r =
     (let (u, r1) = rs_random R r;
          (it, q, p, r4) =
            (if u < 1 / 2
             then let (q, r2) = rs_randint R 25 60 r1;
                      (f, r3) = uniform R (4 / 10) (7 / 10) r2
                  in (''food'', q, max 10 (py_int (of_int q * f)), r3)
             else let (q, r2) = rs_randint R 6 15 r1;
                      (f, r3) = uniform R (15 / 10) 2 r2
                  in (''ammo'', q, max 8 (py_int (of_int q * f)), r3));
          (v, r5) = rs_random R r4;
          p' = (if v < 1 / 4 then p * (- 1) else p)
      in (\<lparr>item = it, quantity = q, price = p'\<rparr>, r5))"

primrec make_offers :: "'r RandomSource \<Rightarrow> nat \<Rightarrow> 'r \<Rightarrow> TradeOffer list \<times> 'r" where
  "make_offers R 0 r = ([], r)"
| "make_offers R (Suc n) r =
     (let (offer, r1) = make_offer R r;
          (offers, r2) = make_offers R n r1
      in (offer # offers, r2))"

definition maybe_prepare_trade_post :: "'r RandomSource \<Rightarrow> bool \<Rightarrow> 'r Game \<Rightarrow> 'r Game" where
  "maybe_prepare_trade_post R initial g =
     (let probability = (if \<not> initial then 25 / 100 else 3 / 10);
          (u, r1) = rs_random R (rng g)
      in if u > probability
         then g\<lparr>rng := r1, state := (state g)\<lparr>trade_available := False\<rparr>,
                current_trade_offers := []\<rparr>
         else let (num_offers, r2) = rs_randint R 1 3 r1;
                  (offers, r3) = make_offers R (nat num_offers) r2
              in g\<lparr>rng := r3, state := (state g)\<lparr>trade_available := True\<rparr>,
                   current_trade_offers := offers\<rparr>)"

definition apply_random_event :: "'r RandomSource \<Rightarrow> 'r Game \<Rightarrow> string list \<times> 'r Game" where
  "apply_random_event R g =
     (let (u, r1) = rs_random R (rng g)
      in if u > event_chance g then ([], g\<lparr>rng := r1\<rparr>)
         else
           let (event_roll, r2) = rs_random R r1
           in if event_roll < 2 / 10 then
                let (loss, r3) = rs_randint R 10 30 r2
                in ([''Spoiled supplies force you to discard '' @ str_int loss @ '' lbs of food.''],
                    g\<lparr>rng := r3, state := (state g)\<lparr>food := max 0 (food (state g) - loss)\<rparr>\<rparr>)
              else if event_roll < 4 / 10 then
                let (injury, r3) = rs_randint R 8 15 r2
                in ([''A wagon accident injures you for '' @ str_int injury @ '' health.''],
                    g\<lparr>rng := r3, state := (state g)\<lparr>health := max 0 (health (state g) - injury)\<rparr>\<rparr>)
              else if event_roll < 6 / 10 then
                let (disease, r3) = rs_randint R 12 20 r2
                in ([''You fall ill and lose '' @ str_int disease @ '' health fighting the sickness.''],
                    g\<lparr>rng := r3, state := (state g)\<lparr>health := max 0 (health (state g) - disease)\<rparr>\<rparr>)
              else if event_roll < 75 / 100 then
                let (n, r3) = rs_randint R 4 10 r2;
                    ammo_loss = min (ammo (state g)) n
                in ([''Bandits raid your camp and steal '' @ str_int ammo_loss @ '' ammo.''],
                    g\<lparr>rng := r3, state := (state g)\<lparr>ammo := ammo (state g) - ammo_loss\<rparr>\<rparr>)
              else if event_roll < 9 / 10 then
                let (found_food, r3) = rs_randint R 20 45 r2
                in ([''You find wild game and add '' @ str_int found_food @ '' lbs of food to your stores.''],
                    g\<lparr>rng := r3, state := (state g)\<lparr>food := food (state g) + found_food\<rparr>\<rparr>)
              else
                ([''You lose the trail and backtrack 10 miles.''],
                 g\<lparr>rng := r2, state := (state g)\<lparr>distance := max 0 (distance (state g) - 10)\<rparr>\<rparr>))"

definition starve :: "'r Game \<Rightarrow> 'r Game" where
  \<comment> \<open>the first statement of \<^verbatim>\<open>_end_of_day\<close>\<close>
  "starve g =
     (if food (state g) \<le> 0
      then g\<lparr>state := (state g)
                \<lparr>health := max 0 (health (state g) - starvation_penalty (settings g)),
                 event_log := event_log (state g) @ [''Without food your health deteriorates quickly.'']\<rparr>\<rparr>
      else g)"

definition end_of_day :: "'r Game \<Rightarrow> 'r Game" where
  "end_of_day g0 =
     (let g = starve g0
      in if health (state g) \<le> 0
         then g\<lparr>state := (state g)\<lparr>alive := False, status := ''You have perished on the trail.''\<rparr>,
                is_over := True\<rparr>
         else if distance (state g) \<ge> TARGET_MILES
         then g\<lparr>state := (state g)\<lparr>won := True,
                                     status := ''Congratulations! You have reached Oregon City.''\<rparr>,
                is_over := True\<rparr>
         else if day (state g) \<ge> max_days g
         then g\<lparr>state := (state g)\<lparr>alive := False,
                                     status := ''Time has run out before you reached Oregon.''\<rparr>,
                is_over := True\<rparr>
         else g\<lparr>state := (state g)\<lparr>status := ''On the trail''\<rparr>\<rparr>)"

subsection \<open>Action handlers\<close>

definition travel :: "string \<Rightarrow> 'r Game \<Rightarrow> (error + string \<times> int) \<times> 'r Game" where
  "travel pace_arg g =
     (let pace_key = strip (lower pace_arg)
      in case map_of PACE_SPEEDS pace_key of
           None \<Rightarrow>
             (Inl (ValueError (''Invalid pace '' @ apostrophe @ pace_arg @ apostrophe
                     @ ''. Choose from '' @ join '', '' (map fst PACE_SPEEDS) @ ''.'')), g)
         | Some speed \<Rightarrow>
             let weather_mod = weather_modifier g;
                 terrain_mod = terrain_modifier g;
                 miles_float = of_int speed * weather_mod * terrain_mod;
                 miles = max 5 (py_round miles_float);
                 message = ''You travel '' @ str_int miles @ '' miles at a '' @ pace_key
                   @ '' pace through '' @ lower (weather (state g)) @ '' weather and ''
                   @ lower (terrain (state g)) @ '' terrain.'';
                 extra_food = \<lceil>of_int BASE_FOOD_PER_DAY
                                 * max 0 (dict_get PACE_FOOD_MULTIPLIER pace_key 0 - 1)\<rceil>
             in (Inr (message, extra_food),
                 g\<lparr>state := (state g)\<lparr>distance := distance (state g) + miles, pace := pace_key\<rparr>\<rparr>))"

definition hunt :: "'r RandomSource \<Rightarrow> int option \<Rightarrow> 'r Game \<Rightarrow> (error + string) \<times> 'r Game" where
  "hunt R ammo_override g =
     (let ammo_cost = (case ammo_override of Some n \<Rightarrow> n | None \<Rightarrow> 5)
      in if ammo_cost \<le> 0
         then (Inl (ValueError ''Ammo spent must be positive when hunting.''), g)
         else if ammo (state g) < ammo_cost
         then (Inl (ValueError ''Not enough ammunition to hunt.''), g)
         else
           let (n, r1) = rs_randint R 25 55 (rng g);
               food_gained = n + ammo_cost * 2
           in (Inr (''You spend '' @ str_int ammo_cost @ '' ammo hunting and bring back ''
                      @ str_int food_gained @ '' lbs of food.''),
               g\<lparr>rng := r1,
                  state := (state g)\<lparr>ammo := ammo (state g) - ammo_cost,
                                     food := food (state g) + food_gained\<rparr>\<rparr>))"

definition rest :: "'r Game \<Rightarrow> string \<times> 'r Game" where
  "rest g =
     (let health_gain = rest_health (settings g);
          previous_health = health (state g);
          g' = g\<lparr>state := (state g)\<lparr>health := min 100 (health (state g) + health_gain)\<rparr>\<rparr>;
          gained = health (state g') - previous_health
      in if gained \<le> 0 then (''You rest for the day but feel no better.'', g')
         else (''You rest for the day and recover '' @ str_int gained @ '' health.'', g'))"

definition close_trade :: "nat \<Rightarrow> 'r Game \<Rightarrow> 'r Game" where
  \<comment> \<open>the last two statements of \<^verbatim>\<open>_trade\<close>: the flag goes down, the offer is popped\<close>
  "close_trade i g =
     g\<lparr>state := (state g)\<lparr>trade_available := False\<rparr>,
       current_trade_offers := take i (current_trade_offers g) @ drop (Suc i) (current_trade_offers g)\<rparr>"

definition trade :: "int option \<Rightarrow> 'r Game \<Rightarrow> (error + string) \<times> 'r Game" where
  "trade offer_index g =
     (if \<not> trade_available (state g) \<or> current_trade_offers g = []
      then (Inr ''There is no trading post available today.'', g)
      else case offer_index of
        None \<Rightarrow>
          (Inr ''You browse the trading post but decide not to trade.'',
           g\<lparr>state := (state g)\<lparr>trade_available := False\<rparr>, current_trade_offers := []\<rparr>)
      | Some i \<Rightarrow>
          if i < 0 \<or> i \<ge> int (length (current_trade_offers g))
          then (Inl (ValueError ''Invalid trade offer selection.''), g)
          else
            let offer = current_trade_offers g ! nat i
            in if item offer \<notin> TRADE_ITEMS
               then (Inl (ValueError ''Unsupported trade item.''), g)
               else if price offer > 0 then
                 (if money (state g) < price offer
                  then (Inl (ValueError ''Not enough money for that trade.''), g)
                  else
                    case add_resource (item offer) (quantity offer)
                           (g\<lparr>state := (state g)\<lparr>money := money (state g) - price offer\<rparr>\<rparr>) of
                      (Inl e, g1) \<Rightarrow> (Inl e, g1)
                    | (Inr _, g1) \<Rightarrow>
                        (Inr (''You buy '' @ str_int (quantity offer) @ '' '' @ item offer
                                @ '' for $'' @ str_int (price offer) @ ''.''),
                         close_trade (nat i) g1))
               else
                 (case get_resource (item offer) g of
                    Inl e \<Rightarrow> (Inl e, g)
                  | Inr have \<Rightarrow>
                      if have < quantity offer
                      then (Inl (ValueError ''You do not have enough goods for that trade.''), g)
                      else
                        (case add_resource (item offer) (- quantity offer) g of
                           (Inl e, g1) \<Rightarrow> (Inl e, g1)
                         | (Inr _, g1) \<Rightarrow>
                             (Inr (''You sell '' @ str_int (quantity offer) @ '' '' @ item offer
                                     @ '' for $'' @ str_int \<bar>price offer\<bar> @ ''.''),
                              close_trade (nat i)
                                (g1\<lparr>state := (state g1)\<lparr>money := money (state g1) + \<bar>price offer\<bar>\<rparr>\<rparr>)))))"

subsection \<open>The public interface\<close>

definition Game_init ::
  "'r RandomSource \<Rightarrow> string \<Rightarrow> string \<Rightarrow> Difficulty \<Rightarrow> 'r option \<Rightarrow> 'r \<Rightarrow> error + 'r Game" where
  \<comment> \<open>\<^verbatim>\<open>Game.__init__\<close>. The last argument is the source \<^verbatim>\<open>random.Random()\<close> would
      make from the entropy of the operating system; it is used when no \<^verbatim>\<open>rng\<close> is
      passed, and differs from one run to the next.\<close>
  "Game_init R name prof diff rng_arg os_rng =
     (let profession_key = strip (lower prof)
      in case map_of PROFESSION_BONUSES profession_key of
           None \<Rightarrow>
             Inl (ValueError (''Unknown profession '' @ apostrophe @ prof @ apostrophe
                    @ ''. Choose from '' @ join '', '' (map fst PROFESSION_BONUSES)))
         | Some bonuses \<Rightarrow>
             let cfg = DIFFICULTY_SETTINGS diff;
                 g = \<lparr>rng = (case rng_arg of Some r \<Rightarrow> r | None \<Rightarrow> os_rng),
                      game_difficulty = diff,
                      settings = cfg,
                      state =
                        \<lparr>player_name = (if strip name = [] then ''Pioneer'' else strip name),
                         profession = profession_key,
                         difficulty = diff,
                         day = 1,
                         distance = 0,
                         food = cfg_food cfg + dict_get bonuses ''food'' 0,
                         ammo = cfg_ammo cfg + dict_get bonuses ''ammo'' 0,
                         money = cfg_money cfg + dict_get bonuses ''money'' 0,
                         health = 100 + dict_get bonuses ''health'' 0,
                         pace = ''steady'',
                         weather = ''Mild'',
                         terrain = ''Plains'',
                         alive = True,
                         won = False,
                         status = ''On the trail'',
                         event_log = [],
                         trade_available = False\<rparr>,
                      event_chance = cfg_event_chance cfg,
                      max_days = cfg_max_days cfg,
                      is_over = False,
                      current_trade_offers = []\<rparr>
             in Inr (maybe_prepare_trade_post R True (update_weather_and_terrain R g)))"

definition available_actions :: "'r Game \<Rightarrow> string list" where
  "available_actions g =
     [''travel'', ''hunt'', ''rest''] @ (if trade_available (state g) then [''trade''] else [])"

definition get_trade_offers :: "'r Game \<Rightarrow> TradeOffer list" where
  "get_trade_offers g = current_trade_offers g"

definition run_handler ::
  "'r RandomSource \<Rightarrow> string \<Rightarrow> Kwargs \<Rightarrow> 'r Game \<Rightarrow> (error + string \<times> int) \<times> 'r Game" where
  \<comment> \<open>the \<^verbatim>\<open>if\<close>/\<^verbatim>\<open>elif\<close> chain of \<^verbatim>\<open>perform_action\<close>: the handler's message and
      the food to consume for the day\<close>
  "run_handler R action_key kwargs g =
     (if action_key = ''travel'' then
        (case travel (case kw_pace kwargs of Some p \<Rightarrow> p | None \<Rightarrow> pace (state g)) g of
           (Inl e, g1) \<Rightarrow> (Inl e, g1)
         | (Inr (message, extra_food), g1) \<Rightarrow> (Inr (message, BASE_FOOD_PER_DAY + extra_food), g1))
      else if action_key = ''hunt'' then
        (case hunt R (kw_ammo_spent kwargs) g of
           (Inl e, g1) \<Rightarrow> (Inl e, g1)
         | (Inr message, g1) \<Rightarrow> (Inr (message, BASE_FOOD_PER_DAY), g1))
      else if action_key = ''rest'' then
        (let (message, g1) = rest g in (Inr (message, BASE_FOOD_PER_DAY), g1))
      else
        (case trade (kw_offer_index kwargs) g of
           (Inl e, g1) \<Rightarrow> (Inl e, g1)
         | (Inr message, g1) \<Rightarrow> (Inr (message, max 1 (BASE_FOOD_PER_DAY - 2)), g1)))"

definition perform_action ::
  "'r RandomSource \<Rightarrow> string \<Rightarrow> Kwargs \<Rightarrow> 'r Game \<Rightarrow> (error + Snapshot) \<times> 'r Game" where
  "perform_action R action kwargs g =
     (if is_over g
      then (Inl (RuntimeError ''The game has ended. Start a new game to continue playing.''), g)
      else
        let action_key = strip (lower action)
        in if action_key \<notin> {''travel'', ''hunt'', ''rest'', ''trade''}
           then (Inl (ValueError (''Unknown action '' @ apostrophe @ action @ apostrophe @ ''.'')), g)
           else
             let g1 = g\<lparr>state := (state g)\<lparr>event_log := []\<rparr>\<rparr>;
                 g2 = update_weather_and_terrain R g1
             in case run_handler R action_key kwargs g2 of
                  (Inl e, g3) \<Rightarrow> (Inl e, g3)
                | (Inr (message, food_consumed), g3) \<Rightarrow>
                    let g4 = consume_food food_consumed g3;
                        (event_messages, g5) = apply_random_event R g4;
                        g6 = end_of_day g5;
                        messages = [message] @ event_messages @ event_log (state g6);
                        snap = (snapshot (state g6))
                                 \<lparr>snap_messages := messages,
                                  snap_trade_offers := map describe (current_trade_offers g6)\<rparr>
                    in (Inr snap,
                        if \<not> is_over g6
                        then maybe_prepare_trade_post R False
                               (g6\<lparr>state := (state g6)\<lparr>day := day (state g6) + 1\<rparr>\<rparr>)
                        else g6))"

subsection \<open>Runs of the engine\<close>

text \<open>
  The game objects a caller can hold: the one a successful construction returns, and the
  one any call of \<^verbatim>\<open>perform_action\<close> leaves behind, whether it returned or raised.
\<close>

inductive reachable :: "'r RandomSource \<Rightarrow> 'r Game \<Rightarrow> bool" for R :: "'r RandomSource" where
  reachable_init:
    "Game_init R name prof diff rng_arg os_rng = Inr g \<Longrightarrow> reachable R g"
| reachable_step:
    "reachable R g \<Longrightarrow> perform_action R action kwargs g = (res, g') \<Longrightarrow> reachable R g'"

text \<open>The same, through calls that returned a snapshot only.\<close>

inductive reachable_ok :: "'r RandomSource \<Rightarrow> 'r Game \<Rightarrow> bool" for R :: "'r RandomSource" where
  reachable_ok_init:
    "Game_init R name prof diff rng_arg os_rng = Inr g \<Longrightarrow> reachable_ok R g"
| reachable_ok_step:
    "reachable_ok R g \<Longrightarrow> perform_action R action kwargs g = (Inr snap, g') \<Longrightarrow> reachable_ok R g'"



subsection \<open>Sample inputs\<close>

definition no_kwargs :: Kwargs where
  "no_kwargs = \<lparr>kw_pace = None, kw_ammo_spent = None, kw_offer_index = None\<rparr>"

text \<open>
  The game \<^verbatim>\<open>Game("Tester", "banker", Difficulty.NORMAL, rng=...)\<close> as its constructor
  leaves it when the first draws gave mild weather, plains and no trading post; \<open>draws\<close>
  is what the source will draw next.
\<close>

definition fresh_banker :: "rat list \<Rightarrow> (rat list) Game" where
  "fresh_banker draws =
     \<lparr>rng = draws,
      game_difficulty = NORMAL,
      settings = DIFFICULTY_SETTINGS NORMAL,
      state =
        \<lparr>player_name = ''Tester'', profession = ''banker'', difficulty = NORMAL, day = 1,
         distance = 0, food = 240, ammo = 55, money = 1700, health = 100, pace = ''steady'',
         weather = ''Mild'', terrain = ''Plains'', alive = True, won = False,
         status = ''On the trail'', event_log = [], trade_available = False\<rparr>,
      event_chance = 27 / 100,
      max_days = 55,
      is_over = False,
      current_trade_offers = []\<rparr>"

definition fresh_doctor :: "rat list \<Rightarrow> (rat list) Game" where
  \<comment> \<open>the same for \<^verbatim>\<open>Game("Tester", "doctor", Difficulty.NORMAL, rng=...)\<close>\<close>
  "fresh_doctor draws =
     (fresh_banker draws)
       \<lparr>state := (state (fresh_banker draws))\<lparr>profession := ''doctor'', money := 1100, health := 110\<rparr>\<rparr>"

subsection \<open>Invariants of a run\<close>

definition stocks_nonneg :: "'r Game \<Rightarrow> bool" where
  "stocks_nonneg g =
     (0 \<le> food (state g) \<and> 0 \<le> ammo (state g) \<and> 0 \<le> money (state g) \<and> 0 \<le> distance (state g))"

definition health_bonus :: "string \<Rightarrow> int" where
  \<comment> \<open>\<^verbatim>\<open>PROFESSION_BONUSES[profession].get("health", 0)\<close>, and 0 for a string that is no
      profession\<close>
  "health_bonus prof = dict_get (dict_get PROFESSION_BONUSES prof []) ''health'' 0"

definition health_ok :: "'r Game \<Rightarrow> bool" where
  "health_ok g =
     (0 \<le> health (state g) \<and> health (state g) \<le> 100 + health_bonus (profession (state g))
      \<and> settings g = DIFFICULTY_SETTINGS (game_difficulty g))"


section \<open>Properties\<close>

subsection \<open>The replaying source\<close>

lemma floor_unit: "0 \<le> (u::rat) \<Longrightarrow> u < 1 \<Longrightarrow> \<lfloor>u\<rfloor> = 0"
  by (simp add: floor_eq_iff)

lemma replay_random_Cons: "0 \<le> u \<Longrightarrow> u < 1 \<Longrightarrow> rs_random replay (u # us) = (u, us)"
  by (simp add: replay_def replay_next_def floor_unit)

lemma replay_random_Nil: "rs_random replay [] = (0, [])"
  by (simp add: replay_def replay_next_def)

lemma replay_randint_Cons:
  "0 \<le> u \<Longrightarrow> u < 1 \<Longrightarrow>
     rs_randint replay a b (u # us) = (a + \<lfloor>u * of_int (b - a + 1)\<rfloor>, us)"
  by (simp add: replay_def replay_next_def floor_unit)

lemma replay_randint_Nil: "rs_randint replay a b [] = (a, [])"
  by (simp add: replay_def replay_next_def)

lemma scaled_draw_range:
  fixes u :: rat and n :: int
  assumes "0 \<le> u" "u < 1" "0 < n"
  shows "0 \<le> \<lfloor>u * of_int n\<rfloor> \<and> \<lfloor>u * of_int n\<rfloor> < n"
proof
  from assms show "0 \<le> \<lfloor>u * of_int n\<rfloor>" by simp
  from assms have "u * of_int n < 1 * of_int n"
    by (intro mult_strict_right_mono) simp_all
  then show "\<lfloor>u * of_int n\<rfloor> < n" by (simp add: floor_less_iff)
qed

lemma replay_next_unit: "0 \<le> fst (replay_next r) \<and> fst (replay_next r) < 1"
  by (cases r) (simp_all add: replay_next_def, linarith+)

text \<open>The replaying source keeps the contract of \<^verbatim>\<open>randint\<close>.\<close>

lemma randint_in_range_replay: "randint_in_range replay"
proof -
  have "a \<le> fst (rs_randint replay a b r) \<and> fst (rs_randint replay a b r) \<le> b"
    if "a \<le> b" for a b r
  proof -
    obtain u r' where next_draw: "replay_next r = (u, r')"
      by (cases "replay_next r")
    with replay_next_unit [of r] have "0 \<le> u" "u < 1" by simp_all
    with that scaled_draw_range [of u "b - a + 1"]
    have "0 \<le> \<lfloor>u * of_int (b - a + 1)\<rfloor> \<and> \<lfloor>u * of_int (b - a + 1)\<rfloor> < b - a + 1" by simp
    with next_draw show ?thesis by (simp add: replay_def)
  qed
  then show ?thesis by (simp add: randint_in_range_def)
qed

text \<open>The sample game is one the constructor returns.\<close>

lemma Game_init_fresh_banker:
  "Game_init replay ''Tester'' ''banker'' NORMAL (Some (0 # 0 # 1 / 2 # draws)) os_rng
     = Inr (fresh_banker draws)"
  by (simp add: Game_init_def fresh_banker_def strip_def lower_def lower_char_def is_space_def
      PROFESSION_BONUSES_def dict_get_def update_weather_and_terrain_def choices_def bisect_def
      WEATHER_OPTIONS_def TERRAIN_OPTIONS_def maybe_prepare_trade_post_def replay_random_Cons
      Let_def)

subsection \<open>Actions on a finished game\<close>

text \<open>
  C3. Once the game is over (\<^verbatim>\<open>is_over\<close>, which the end of a day sets on a win, a death
  and on running out of days), \<^verbatim>\<open>perform_action\<close> raises \<^verbatim>\<open>RuntimeError\<close> for every
  action name, known or not, and every keyword argument, and the game object is left as it was.
\<close>

theorem perform_action_when_over:
  assumes "is_over g"
  shows "perform_action R action kwargs g
           = (Inl (RuntimeError ''The game has ended. Start a new game to continue playing.''), g)"
  using assms by (simp add: perform_action_def)

theorem perform_action_when_over_witness:
  "is_over ((fresh_banker [])\<lparr>is_over := True\<rparr>)
   \<and> perform_action replay ''fly'' no_kwargs ((fresh_banker [])\<lparr>is_over := True\<rparr>)
       = (Inl (RuntimeError ''The game has ended. Start a new game to continue playing.''),
          (fresh_banker [])\<lparr>is_over := True\<rparr>)"
proof -
  have over: "is_over ((fresh_banker [])\<lparr>is_over := True\<rparr>)"
    by simp
  from over perform_action_when_over [OF over] show ?thesis
    by (rule conjI)
qed

subsection \<open>What each step of a day touches\<close>

lemma randint_bounds:
  "rs_randint R a b r = (n, r') \<Longrightarrow> randint_in_range R \<Longrightarrow> a \<le> b \<Longrightarrow> a \<le> n \<and> n \<le> b"
  unfolding randint_in_range_def by (metis fst_conv)

lemma update_weather_and_terrain_shape:
  "\<exists>r w t. update_weather_and_terrain R g
     = g\<lparr>rng := r, state := (state g)\<lparr>weather := w, terrain := t\<rparr>\<rparr>"
  by (auto simp: update_weather_and_terrain_def Let_def split: prod.splits)

lemma maybe_prepare_trade_post_shape:
  "\<exists>r b offers. maybe_prepare_trade_post R initial g
     = g\<lparr>rng := r, state := (state g)\<lparr>trade_available := b\<rparr>, current_trade_offers := offers\<rparr>"
  by (auto simp: maybe_prepare_trade_post_def Let_def split: prod.splits)


lemma end_of_day_shape:
  "\<exists>h l a w s b. end_of_day g
     = g\<lparr>state := (state g)\<lparr>health := h, event_log := l, alive := a, won := w, status := s\<rparr>,
         is_over := b\<rparr>"
proof -
  let ?g' = "end_of_day g"
  have "?g' = g\<lparr>state := (state g)\<lparr>health := health (state ?g'), event_log := event_log (state ?g'),
                                    alive := alive (state ?g'), won := won (state ?g'),
                                    status := status (state ?g')\<rparr>,
                 is_over := is_over ?g'\<rparr>"
    by (simp add: end_of_day_def starve_def Let_def)
  then show ?thesis by blast
qed

lemma travel_shape:
  "\<exists>d p. snd (travel pace_arg g) = g\<lparr>state := (state g)\<lparr>distance := d, pace := p\<rparr>\<rparr>"
proof -
  let ?g' = "snd (travel pace_arg g)"
  have "?g' = g\<lparr>state := (state g)\<lparr>distance := distance (state ?g'), pace := pace (state ?g')\<rparr>\<rparr>"
    by (simp add: travel_def Let_def split: option.splits)
  then show ?thesis by blast
qed

lemma hunt_shape:
  "\<exists>r a f. snd (hunt R ammo_override g) = g\<lparr>rng := r, state := (state g)\<lparr>ammo := a, food := f\<rparr>\<rparr>"
proof -
  let ?g' = "snd (hunt R ammo_override g)"
  have "?g' = g\<lparr>rng := rng ?g', state := (state g)\<lparr>ammo := ammo (state ?g'), food := food (state ?g')\<rparr>\<rparr>"
    by (simp add: hunt_def Let_def split: prod.splits)
  then show ?thesis by blast
qed

lemma snd_rest:
  "snd (rest g)
     = g\<lparr>state := (state g)\<lparr>health := min 100 (health (state g) + rest_health (settings g))\<rparr>\<rparr>"
  by (simp add: rest_def Let_def)

lemma trade_shape:
  "\<exists>f a m b offers. snd (trade offer_index g)
     = g\<lparr>state := (state g)\<lparr>food := f, ammo := a, money := m, trade_available := b\<rparr>,
         current_trade_offers := offers\<rparr>"
proof -
  let ?g' = "snd (trade offer_index g)"
  have "?g' = g\<lparr>state := (state g)\<lparr>food := food (state ?g'), ammo := ammo (state ?g'),
                                    money := money (state ?g'),
                                    trade_available := trade_available (state ?g')\<rparr>,
                 current_trade_offers := current_trade_offers ?g'\<rparr>"
    by (simp add: trade_def close_trade_def add_resource_def get_resource_def Let_def
        split: prod.splits option.splits sum.splits)
  then show ?thesis by blast
qed

text \<open>The handlers one by one, as \<open>run_handler\<close> calls them.\<close>

lemma run_handler_cases:
  assumes "run_handler R key kwargs g = (res, g')"
  obtains
    (travel) r where "key = ''travel''"
      "travel (case kw_pace kwargs of Some p \<Rightarrow> p | None \<Rightarrow> pace (state g)) g = (r, g')"
  | (hunt) r where "key = ''hunt''" "hunt R (kw_ammo_spent kwargs) g = (r, g')"
  | (rest) r where "key = ''rest''" "rest g = (r, g')"
  | (trade) r where "key \<notin> {''travel'', ''hunt'', ''rest''}"
      "trade (kw_offer_index kwargs) g = (r, g')"
  using assms
  by (auto simp: run_handler_def Let_def split: if_splits prod.splits sum.splits)

text \<open>A call that returned went through the whole day; a call that raised stopped early.\<close>

lemma perform_action_returns:
  assumes "perform_action R action kwargs g = (Inr snap, g')"
  obtains message food_consumed g3 event_messages g5 where
    "\<not> is_over g"
    "strip (lower action) \<in> {''travel'', ''hunt'', ''rest'', ''trade''}"
    "run_handler R (strip (lower action)) kwargs
       (update_weather_and_terrain R (g\<lparr>state := (state g)\<lparr>event_log := []\<rparr>\<rparr>))
       = (Inr (message, food_consumed), g3)"
    "apply_random_event R (consume_food food_consumed g3) = (event_messages, g5)"
    "snap = (snapshot (state (end_of_day g5)))
              \<lparr>snap_messages := [message] @ event_messages @ event_log (state (end_of_day g5)),
               snap_trade_offers := map describe (current_trade_offers (end_of_day g5))\<rparr>"
    "g' = (if \<not> is_over (end_of_day g5)
           then maybe_prepare_trade_post R False
                  ((end_of_day g5)\<lparr>state := (state (end_of_day g5))
                                     \<lparr>day := day (state (end_of_day g5)) + 1\<rparr>\<rparr>)
           else end_of_day g5)"
  using assms
  by (auto simp: perform_action_def Let_def split: if_splits prod.splits sum.splits)

lemma perform_action_raises:
  assumes "perform_action R action kwargs g = (Inl e, g')"
  shows "g' = g \<or>
     run_handler R (strip (lower action)) kwargs
       (update_weather_and_terrain R (g\<lparr>state := (state g)\<lparr>event_log := []\<rparr>\<rparr>)) = (Inl e, g')"
  using assms
  by (auto simp: perform_action_def Let_def split: if_splits prod.splits sum.splits)

subsection \<open>Food, ammunition, money and distance never go negative\<close>

lemma stocks_nonneg_update_weather_and_terrain:
  "stocks_nonneg (update_weather_and_terrain R g) = stocks_nonneg g"
proof -
  obtain r w t where
    "update_weather_and_terrain R g = g\<lparr>rng := r, state := (state g)\<lparr>weather := w, terrain := t\<rparr>\<rparr>"
    using update_weather_and_terrain_shape [of R g] by blast
  then show ?thesis by (simp add: stocks_nonneg_def)
qed

lemma stocks_nonneg_maybe_prepare_trade_post:
  "stocks_nonneg (maybe_prepare_trade_post R initial g) = stocks_nonneg g"
proof -
  obtain r b offers where
    "maybe_prepare_trade_post R initial g
       = g\<lparr>rng := r, state := (state g)\<lparr>trade_available := b\<rparr>, current_trade_offers := offers\<rparr>"
    using maybe_prepare_trade_post_shape [of R initial g] by blast
  then show ?thesis by (simp add: stocks_nonneg_def)
qed

lemma stocks_nonneg_end_of_day: "stocks_nonneg (end_of_day g) = stocks_nonneg g"
proof -
  obtain h l a w s b where
    "end_of_day g
       = g\<lparr>state := (state g)\<lparr>health := h, event_log := l, alive := a, won := w, status := s\<rparr>,
           is_over := b\<rparr>"
    using end_of_day_shape [of g] by blast
  then show ?thesis by (simp add: stocks_nonneg_def)
qed

lemma stocks_nonneg_consume_food: "stocks_nonneg g \<Longrightarrow> stocks_nonneg (consume_food n g)"
  by (simp add: stocks_nonneg_def consume_food_def)

lemma stocks_nonneg_apply_random_event:
  assumes "apply_random_event R g = (evs, g')" "randint_in_range R" "stocks_nonneg g"
  shows "stocks_nonneg g'"
  using assms
  by (auto simp: apply_random_event_def Let_def stocks_nonneg_def
      split: prod.splits if_splits dest: randint_bounds)

lemma py_round_nonneg: "0 \<le> x \<Longrightarrow> 0 \<le> py_round x"
  by (simp add: py_round_def Let_def)

lemma stocks_nonneg_travel:
  assumes "travel p g = (res, g')" "stocks_nonneg g"
  shows "stocks_nonneg g'"
  using assms by (auto simp: travel_def Let_def stocks_nonneg_def split: option.splits)

lemma stocks_nonneg_hunt:
  assumes "hunt R n g = (res, g')" "randint_in_range R" "stocks_nonneg g"
  shows "stocks_nonneg g'"
  using assms
  by (auto simp: hunt_def Let_def stocks_nonneg_def
      split: option.splits prod.splits if_splits dest: randint_bounds)

lemma stocks_nonneg_rest:
  assumes "rest g = (res, g')" "stocks_nonneg g"
  shows "stocks_nonneg g'"
  using assms by (auto simp: rest_def Let_def stocks_nonneg_def split: if_splits)

lemma stocks_nonneg_add_resource:
  assumes "add_resource it n g = (res, g')" "stocks_nonneg g"
  shows "stocks_nonneg g'"
  using assms by (auto simp: add_resource_def stocks_nonneg_def split: if_splits)

lemma stocks_nonneg_close_trade: "stocks_nonneg (close_trade i g) = stocks_nonneg g"
  by (simp add: close_trade_def stocks_nonneg_def)

lemma stocks_nonneg_trade:
  assumes "trade idx g = (res, g')" "stocks_nonneg g"
  shows "stocks_nonneg g'"
proof (cases "\<not> trade_available (state g) \<or> current_trade_offers g = []")
  case True
  with assms show ?thesis by (simp add: trade_def)
next
  case available: False
  show ?thesis
  proof (cases idx)
    case None
    with assms available show ?thesis by (auto simp: trade_def stocks_nonneg_def)
  next
    case (Some i)
    let ?offer = "current_trade_offers g ! nat i"
    let ?paid = "g\<lparr>state := (state g)\<lparr>money := money (state g) - price ?offer\<rparr>\<rparr>"
    consider (raised) "g' = g"
      | (buy) r g1 where "money (state g) \<ge> price ?offer"
          "add_resource (item ?offer) (quantity ?offer) ?paid = (r, g1)"
          "g' = g1 \<or> g' = close_trade (nat i) g1"
      | (sell) r g1 where "add_resource (item ?offer) (- quantity ?offer) g = (r, g1)"
          "g' = g1 \<or> g' = close_trade (nat i)
                            (g1\<lparr>state := (state g1)\<lparr>money := money (state g1) + \<bar>price ?offer\<bar>\<rparr>\<rparr>)"
      using assms(1) available Some
      by (auto simp: trade_def Let_def split: if_splits prod.splits sum.splits)
    then show ?thesis
    proof cases
      case raised
      with assms show ?thesis by simp
    next
      case buy
      from assms(2) buy(1) have "stocks_nonneg ?paid"
        by (simp add: stocks_nonneg_def)
      with buy(2) have "stocks_nonneg g1" by (rule stocks_nonneg_add_resource)
      with buy(3) show ?thesis by (auto simp: stocks_nonneg_close_trade)
    next
      case sell
      from sell(1) assms(2) have g1: "stocks_nonneg g1" by (rule stocks_nonneg_add_resource)
      then have "stocks_nonneg (g1\<lparr>state := (state g1)\<lparr>money := money (state g1) + \<bar>price ?offer\<bar>\<rparr>\<rparr>)"
        by (simp add: stocks_nonneg_def)
      with sell(2) g1 show ?thesis by (auto simp: stocks_nonneg_close_trade)
    qed
  qed
qed

lemma stocks_nonneg_run_handler:
  assumes "run_handler R key kwargs g = (res, g')" "randint_in_range R" "stocks_nonneg g"
  shows "stocks_nonneg g'"
  using assms(1)
proof (cases rule: run_handler_cases)
  case travel
  with assms show ?thesis by (blast intro: stocks_nonneg_travel)
next
  case hunt
  with assms show ?thesis by (blast intro: stocks_nonneg_hunt)
next
  case rest
  with assms show ?thesis by (blast intro: stocks_nonneg_rest)
next
  case trade
  with assms show ?thesis by (blast intro: stocks_nonneg_trade)
qed

lemma stocks_nonneg_perform_action:
  assumes "perform_action R action kwargs g = (res, g')" "randint_in_range R" "stocks_nonneg g"
  shows "stocks_nonneg g'"
proof -
  let ?g2 = "update_weather_and_terrain R (g\<lparr>state := (state g)\<lparr>event_log := []\<rparr>\<rparr>)"
  from assms(3) have g2: "stocks_nonneg ?g2"
    by (simp add: stocks_nonneg_update_weather_and_terrain) (simp add: stocks_nonneg_def)
  show ?thesis
  proof (cases res)
    case (Inl e)
    with assms(1) perform_action_raises [of R action kwargs g e g']
    consider "g' = g" | "run_handler R (strip (lower action)) kwargs ?g2 = (Inl e, g')"
      by blast
    then show ?thesis
    proof cases
      case 1
      with assms(3) show ?thesis by simp
    next
      case 2
      then show ?thesis using assms(2) g2 by (rule stocks_nonneg_run_handler)
    qed
  next
    case (Inr snap)
    with assms(1) have "perform_action R action kwargs g = (Inr snap, g')" by simp
    then show ?thesis
    proof (cases rule: perform_action_returns)
      case (1 message food_consumed g3 event_messages g5)
      from 1(3) assms(2) g2 have "stocks_nonneg g3" by (rule stocks_nonneg_run_handler)
      then have "stocks_nonneg (consume_food food_consumed g3)" by (rule stocks_nonneg_consume_food)
      with 1(4) assms(2) have "stocks_nonneg g5" by (blast intro: stocks_nonneg_apply_random_event)
      then have eod: "stocks_nonneg (end_of_day g5)" by (simp add: stocks_nonneg_end_of_day)
      then have "stocks_nonneg ((end_of_day g5)\<lparr>state := (state (end_of_day g5))
                                     \<lparr>day := day (state (end_of_day g5)) + 1\<rparr>\<rparr>)"
        by (simp add: stocks_nonneg_def)
      with eod 1(6) show ?thesis by (simp add: stocks_nonneg_maybe_prepare_trade_post)
    qed
  qed
qed

lemma cfg_nonneg:
  "0 \<le> cfg_food (DIFFICULTY_SETTINGS d) \<and> 0 \<le> cfg_ammo (DIFFICULTY_SETTINGS d)
   \<and> 0 \<le> cfg_money (DIFFICULTY_SETTINGS d)"
  by (cases d) simp_all

lemma bonus_nonneg:
  "map_of PROFESSION_BONUSES p = Some bonuses \<Longrightarrow> 0 \<le> dict_get bonuses key 0"
  by (auto simp: PROFESSION_BONUSES_def dict_get_def split: if_splits)

lemma stocks_nonneg_Game_init:
  assumes "Game_init R name prof diff rng_arg os_rng = Inr g"
  shows "stocks_nonneg g"
proof -
  from assms obtain bonuses g0 where
    bonuses: "map_of PROFESSION_BONUSES (strip (lower prof)) = Some bonuses"
    and g: "g = maybe_prepare_trade_post R True (update_weather_and_terrain R g0)"
    and g0: "food (state g0) = cfg_food (DIFFICULTY_SETTINGS diff) + dict_get bonuses ''food'' 0"
      "ammo (state g0) = cfg_ammo (DIFFICULTY_SETTINGS diff) + dict_get bonuses ''ammo'' 0"
      "money (state g0) = cfg_money (DIFFICULTY_SETTINGS diff) + dict_get bonuses ''money'' 0"
      "distance (state g0) = 0"
    by (auto simp: Game_init_def Let_def split: option.splits)
  from g0 cfg_nonneg [of diff] bonus_nonneg [OF bonuses] have "stocks_nonneg g0"
    by (simp add: stocks_nonneg_def)
  with g show ?thesis
    by (simp add: stocks_nonneg_maybe_prepare_trade_post stocks_nonneg_update_weather_and_terrain)
qed

text \<open>
  C4. With a random source that keeps \<^verbatim>\<open>randint\<close> within its bounds, food, ammunition,
  money and distance are at least zero in the game a construction returns and in the game
  any sequence of \<^verbatim>\<open>perform_action\<close> calls leaves behind, whether the calls returned or
  raised.
\<close>

theorem stocks_never_negative:
  assumes "randint_in_range R" and "reachable R g"
  shows "0 \<le> food (state g) \<and> 0 \<le> ammo (state g) \<and> 0 \<le> money (state g)
         \<and> 0 \<le> distance (state g)"
proof -
  from assms(2) have "stocks_nonneg g"
  proof (induction rule: reachable.induct)
    case (reachable_init name prof diff rng_arg os_rng g)
    then show ?case by (rule stocks_nonneg_Game_init)
  next
    case (reachable_step g action kwargs res g')
    from reachable_step.hyps(2) assms(1) reachable_step.IH show ?case
      by (rule stocks_nonneg_perform_action)
  qed
  then show ?thesis by (simp add: stocks_nonneg_def)
qed

theorem stocks_never_negative_witness:
  "randint_in_range replay
   \<and> reachable replay (snd (perform_action replay ''hunt'' no_kwargs (fresh_banker [])))
   \<and> 0 \<le> food (state (snd (perform_action replay ''hunt'' no_kwargs (fresh_banker []))))
   \<and> 0 \<le> ammo (state (snd (perform_action replay ''hunt'' no_kwargs (fresh_banker []))))
   \<and> 0 \<le> money (state (snd (perform_action replay ''hunt'' no_kwargs (fresh_banker []))))
   \<and> 0 \<le> distance (state (snd (perform_action replay ''hunt'' no_kwargs (fresh_banker []))))"
proof -
  have "reachable replay (fresh_banker [])"
    using Game_init_fresh_banker [of "[]" "[]"] by (rule reachable_init)
  then have reach: "reachable replay (snd (perform_action replay ''hunt'' no_kwargs (fresh_banker [])))"
    by (rule reachable_step) (rule prod.collapse [symmetric])
  from randint_in_range_replay reach stocks_never_negative [OF randint_in_range_replay reach]
  show ?thesis by blast
qed

subsection \<open>The range of health\<close>

lemma health_bonus_range: "0 \<le> health_bonus p \<and> health_bonus p \<le> 10"
  by (simp add: health_bonus_def PROFESSION_BONUSES_def dict_get_def)

lemma health_ok_frame:
  assumes "health (state g') = health (state g)" "profession (state g') = profession (state g)"
    "settings g' = settings g" "game_difficulty g' = game_difficulty g"
  shows "health_ok g' = health_ok g"
  using assms by (simp add: health_ok_def)

lemma health_ok_update_weather_and_terrain:
  "health_ok (update_weather_and_terrain R g) = health_ok g"
proof -
  obtain r w t where
    "update_weather_and_terrain R g = g\<lparr>rng := r, state := (state g)\<lparr>weather := w, terrain := t\<rparr>\<rparr>"
    using update_weather_and_terrain_shape [of R g] by blast
  then show ?thesis by (simp add: health_ok_def)
qed

lemma health_ok_maybe_prepare_trade_post:
  "health_ok (maybe_prepare_trade_post R initial g) = health_ok g"
proof -
  obtain r b offers where
    "maybe_prepare_trade_post R initial g
       = g\<lparr>rng := r, state := (state g)\<lparr>trade_available := b\<rparr>, current_trade_offers := offers\<rparr>"
    using maybe_prepare_trade_post_shape [of R initial g] by blast
  then show ?thesis by (simp add: health_ok_def)
qed

lemma health_ok_consume_food: "health_ok (consume_food n g) = health_ok g"
  by (simp add: health_ok_def consume_food_def)

lemma starvation_penalty_nonneg: "0 \<le> starvation_penalty (DIFFICULTY_SETTINGS d)"
  by (cases d) simp_all

lemma rest_health_nonneg: "0 \<le> rest_health (DIFFICULTY_SETTINGS d)"
  by (cases d) simp_all

lemma health_ok_end_of_day:
  assumes "health_ok g"
  shows "health_ok (end_of_day g)"
  using assms starvation_penalty_nonneg [of "game_difficulty g"]
  by (simp add: end_of_day_def starve_def Let_def health_ok_def)

lemma health_ok_apply_random_event:
  assumes "apply_random_event R g = (evs, g')" "randint_in_range R" "health_ok g"
  shows "health_ok g'"
  using assms
  by (auto simp: apply_random_event_def Let_def health_ok_def
      split: prod.splits if_splits dest: randint_bounds)

lemma health_ok_run_handler:
  assumes "run_handler R key kwargs g = (res, g')" "health_ok g"
  shows "health_ok g'"
  using assms(1)
proof (cases rule: run_handler_cases)
  case (travel r)
  obtain d p where
    "snd (travel (case kw_pace kwargs of Some p \<Rightarrow> p | None \<Rightarrow> pace (state g)) g)
       = g\<lparr>state := (state g)\<lparr>distance := d, pace := p\<rparr>\<rparr>"
    using travel_shape by blast
  with travel(2) have "g' = g\<lparr>state := (state g)\<lparr>distance := d, pace := p\<rparr>\<rparr>" by simp
  with assms(2) show ?thesis by (simp add: health_ok_def)
next
  case (hunt r)
  obtain r1 a f where
    "snd (hunt R (kw_ammo_spent kwargs) g) = g\<lparr>rng := r1, state := (state g)\<lparr>ammo := a, food := f\<rparr>\<rparr>"
    using hunt_shape [of R "kw_ammo_spent kwargs" g] by blast
  with hunt(2) have "g' = g\<lparr>rng := r1, state := (state g)\<lparr>ammo := a, food := f\<rparr>\<rparr>" by simp
  with assms(2) show ?thesis by (simp add: health_ok_def)
next
  case (rest r)
  with snd_rest [of g]
  have "g' = g\<lparr>state := (state g)\<lparr>health := min 100 (health (state g) + rest_health (settings g))\<rparr>\<rparr>"
    by simp
  with assms(2) rest_health_nonneg [of "game_difficulty g"] health_bonus_range [of "profession (state g)"]
  show ?thesis by (auto simp: health_ok_def min_def)
next
  case (trade r)
  obtain f a m b offers where
    "snd (trade (kw_offer_index kwargs) g)
       = g\<lparr>state := (state g)\<lparr>food := f, ammo := a, money := m, trade_available := b\<rparr>,
           current_trade_offers := offers\<rparr>"
    using trade_shape by blast
  with trade have "g' = g\<lparr>state := (state g)\<lparr>food := f, ammo := a, money := m, trade_available := b\<rparr>,
           current_trade_offers := offers\<rparr>" by simp
  with assms(2) show ?thesis by (simp add: health_ok_def)
qed

lemma health_ok_perform_action:
  assumes "perform_action R action kwargs g = (res, g')" "randint_in_range R" "health_ok g"
  shows "health_ok g'"
proof -
  let ?g2 = "update_weather_and_terrain R (g\<lparr>state := (state g)\<lparr>event_log := []\<rparr>\<rparr>)"
  from assms(3) have g2: "health_ok ?g2"
    by (simp add: health_ok_update_weather_and_terrain) (simp add: health_ok_def)
  show ?thesis
  proof (cases res)
    case (Inl e)
    with assms(1) perform_action_raises [of R action kwargs g e g']
    consider "g' = g" | "run_handler R (strip (lower action)) kwargs ?g2 = (Inl e, g')"
      by blast
    then show ?thesis
    proof cases
      case 1
      with assms(3) show ?thesis by simp
    next
      case 2
      then show ?thesis using g2 by (rule health_ok_run_handler)
    qed
  next
    case (Inr snap)
    with assms(1) have "perform_action R action kwargs g = (Inr snap, g')" by simp
    then show ?thesis
    proof (cases rule: perform_action_returns)
      case (1 message food_consumed g3 event_messages g5)
      from 1(3) g2 have "health_ok g3" by (rule health_ok_run_handler)
      then have "health_ok (consume_food food_consumed g3)" by (simp add: health_ok_consume_food)
      with 1(4) assms(2) have "health_ok g5" by (blast intro: health_ok_apply_random_event)
      then have eod: "health_ok (end_of_day g5)" by (rule health_ok_end_of_day)
      then have "health_ok ((end_of_day g5)\<lparr>state := (state (end_of_day g5))
                                     \<lparr>day := day (state (end_of_day g5)) + 1\<rparr>\<rparr>)"
        by (simp add: health_ok_def)
      with eod 1(6) show ?thesis by (simp add: health_ok_maybe_prepare_trade_post)
    qed
  qed
qed

lemma health_ok_Game_init:
  assumes "Game_init R name prof diff rng_arg os_rng = Inr g"
  shows "health_ok g"
proof -
  from assms obtain bonuses g0 where
    bonuses: "map_of PROFESSION_BONUSES (strip (lower prof)) = Some bonuses"
    and g: "g = maybe_prepare_trade_post R True (update_weather_and_terrain R g0)"
    and g0: "health (state g0) = 100 + dict_get bonuses ''health'' 0"
      "profession (state g0) = strip (lower prof)"
      "settings g0 = DIFFICULTY_SETTINGS diff" "game_difficulty g0 = diff"
    by (auto simp: Game_init_def Let_def split: option.splits)
  from bonuses have "health_bonus (strip (lower prof)) = dict_get bonuses ''health'' 0"
    by (simp add: health_bonus_def dict_get_def)
  with g0 health_bonus_range [of "strip (lower prof)"] have "health_ok g0"
    by (simp add: health_ok_def)
  with g show ?thesis
    by (simp add: health_ok_maybe_prepare_trade_post health_ok_update_weather_and_terrain)
qed

lemma Game_init_fresh_doctor:
  "Game_init replay ''Tester'' ''doctor'' NORMAL (Some (0 # 0 # 1 / 2 # draws)) os_rng
     = Inr (fresh_doctor draws)"
  by (simp add: Game_init_def fresh_doctor_def fresh_banker_def strip_def lower_def lower_char_def
      is_space_def PROFESSION_BONUSES_def dict_get_def update_weather_and_terrain_def choices_def
      bisect_def WEATHER_OPTIONS_def TERRAIN_OPTIONS_def maybe_prepare_trade_post_def
      replay_random_Cons Let_def)

text \<open>
  C1 as stated fails at construction: the constructor adds the health bonus of the profession
  to 100 and does not clamp, so a doctor starts at 110.
\<close>

theorem health_above_100_counterexample:
  "reachable_ok replay (fresh_doctor []) \<and> \<not> health (state (fresh_doctor [])) \<le> 100"
proof
  show "reachable_ok replay (fresh_doctor [])"
    using Game_init_fresh_doctor [of "[]" "[]"] by (rule reachable_ok_init)
  show "\<not> health (state (fresh_doctor [])) \<le> 100"
    by (simp add: fresh_doctor_def)
qed

text \<open>
  C1, amended. With a random source that keeps \<^verbatim>\<open>randint\<close> within its bounds, in every
  game reached by a construction and calls of \<^verbatim>\<open>perform_action\<close> that returned, health
  is at least 0 and at most 100 plus the health bonus of the game's profession; that bonus
  is at most 10 (0 for a banker, 5 for a carpenter or farmer, 10 for a doctor).
\<close>

theorem health_within_bonus_cap:
  assumes "randint_in_range R" and "reachable_ok R g"
  shows "0 \<le> health (state g)
         \<and> health (state g) \<le> 100 + health_bonus (profession (state g))
         \<and> health_bonus (profession (state g)) \<le> 10"
proof -
  from assms(2) have "health_ok g"
  proof (induction rule: reachable_ok.induct)
    case (reachable_ok_init name prof diff rng_arg os_rng g)
    then show ?case by (rule health_ok_Game_init)
  next
    case (reachable_ok_step g action kwargs snap g')
    from reachable_ok_step.hyps(2) assms(1) reachable_ok_step.IH show ?case
      by (rule health_ok_perform_action)
  qed
  with health_bonus_range [of "profession (state g)"] show ?thesis
    by (simp add: health_ok_def)
qed

theorem health_within_bonus_cap_witness:
  "randint_in_range replay \<and> reachable_ok replay (fresh_doctor [])
   \<and> 0 \<le> health (state (fresh_doctor []))
   \<and> health (state (fresh_doctor [])) \<le> 100 + health_bonus (profession (state (fresh_doctor [])))
   \<and> health_bonus (profession (state (fresh_doctor []))) \<le> 10"
proof -
  have reach: "reachable_ok replay (fresh_doctor [])"
    using Game_init_fresh_doctor [of "[]" "[]"] by (rule reachable_ok_init)
  from randint_in_range_replay reach health_within_bonus_cap [OF randint_in_range_replay reach]
  show ?thesis by blast
qed

subsection \<open>The end of the day\<close>

text \<open>
  C5. \<^verbatim>\<open>_end_of_day\<close> is called on a game that is not over, hence not won, with food that
  is not negative (C4). It first lowers health by the starvation penalty of the game's
  difficulty preset when food is zero (not below 0, as every loss of health); then the first
  of these that applies decides the outcome: health at most 0 ends the game, not alive and
  not won; distance at least 2000 ends it, won, with \<open>alive\<close> untouched; the day count
  reaching the preset's \<open>max_days\<close> ends it, not alive and not won; otherwise the game goes
  on with the status \<^verbatim>\<open>On the trail\<close>.
\<close>

theorem end_of_day_priority:
  assumes "\<not> is_over g" and "\<not> won (state g)" and "0 \<le> food (state g)"
  shows "let g' = end_of_day g;
             h = (if food (state g) = 0
                  then max 0 (health (state g) - starvation_penalty (settings g))
                  else health (state g))
         in health (state g') = h
            \<and> (if h \<le> 0
               then is_over g' \<and> \<not> alive (state g') \<and> \<not> won (state g')
               else if distance (state g) \<ge> 2000
               then is_over g' \<and> won (state g') \<and> alive (state g') = alive (state g)
               else if day (state g) \<ge> max_days g
               then is_over g' \<and> \<not> alive (state g') \<and> \<not> won (state g')
               else \<not> is_over g' \<and> status (state g') = ''On the trail''
                    \<and> alive (state g') = alive (state g) \<and> \<not> won (state g'))"
  using assms by (simp add: end_of_day_def starve_def Let_def TARGET_MILES_def)

theorem end_of_day_priority_witness:
  "\<not> is_over ((fresh_banker [])\<lparr>state := (state (fresh_banker []))\<lparr>food := 0, distance := 2000\<rparr>\<rparr>)
   \<and> \<not> won (state ((fresh_banker [])\<lparr>state := (state (fresh_banker []))\<lparr>food := 0, distance := 2000\<rparr>\<rparr>))
   \<and> 0 \<le> food (state ((fresh_banker [])\<lparr>state := (state (fresh_banker []))\<lparr>food := 0, distance := 2000\<rparr>\<rparr>))
   \<and> health (state (end_of_day
        ((fresh_banker [])\<lparr>state := (state (fresh_banker []))\<lparr>food := 0, distance := 2000\<rparr>\<rparr>))) = 90
   \<and> is_over (end_of_day
        ((fresh_banker [])\<lparr>state := (state (fresh_banker []))\<lparr>food := 0, distance := 2000\<rparr>\<rparr>))
   \<and> won (state (end_of_day
        ((fresh_banker [])\<lparr>state := (state (fresh_banker []))\<lparr>food := 0, distance := 2000\<rparr>\<rparr>)))
   \<and> alive (state (end_of_day
        ((fresh_banker [])\<lparr>state := (state (fresh_banker []))\<lparr>food := 0, distance := 2000\<rparr>\<rparr>)))"
proof -
  let ?g = "(fresh_banker [])\<lparr>state := (state (fresh_banker []))\<lparr>food := 0, distance := 2000\<rparr>\<rparr>"
  have playing: "\<not> is_over ?g" and not_won: "\<not> won (state ?g)" and fed: "0 \<le> food (state ?g)"
    by (simp_all add: fresh_banker_def)
  have start: "food (state ?g) = 0" "health (state ?g) = 100" "distance (state ?g) = 2000"
    "starvation_penalty (settings ?g) = 10" "alive (state ?g)"
    by (simp_all add: fresh_banker_def)
  from end_of_day_priority [OF playing not_won fed] start playing not_won
  show ?thesis by (simp add: Let_def)
qed

subsection \<open>Determinism under a seed\<close>



text \<open>Without a seed the runs can differ: the model does not hide the entropy.\<close>

lemma unseeded_runs_may_differ:
  "Game_init replay ''Tester'' ''banker'' NORMAL None [0, 0, 1 / 2]
     \<noteq> Game_init replay ''Tester'' ''banker'' NORMAL None [99 / 100, 0, 1 / 2]"
  by (simp add: Game_init_def strip_def lower_def lower_char_def
      is_space_def PROFESSION_BONUSES_def dict_get_def update_weather_and_terrain_def choices_def
      bisect_def WEATHER_OPTIONS_def TERRAIN_OPTIONS_def maybe_prepare_trade_post_def
      replay_random_Cons Let_def)

subsection \<open>Trading with an index out of range\<close>

lemma trade_post_update_weather_and_terrain:
  "trade_available (state (update_weather_and_terrain R g)) = trade_available (state g)
   \<and> current_trade_offers (update_weather_and_terrain R g) = current_trade_offers g"
proof -
  obtain r w t where
    "update_weather_and_terrain R g = g\<lparr>rng := r, state := (state g)\<lparr>weather := w, terrain := t\<rparr>\<rparr>"
    using update_weather_and_terrain_shape [of R g] by blast
  then show ?thesis by simp
qed

lemma perform_action_trade:
  assumes "\<not> is_over g" and "strip (lower action) = ''trade''"
  shows "perform_action R action kwargs g =
     (let g2 = update_weather_and_terrain R (g\<lparr>state := (state g)\<lparr>event_log := []\<rparr>\<rparr>)
      in case trade (kw_offer_index kwargs) g2 of
           (Inl e, g3) \<Rightarrow> (Inl e, g3)
         | (Inr message, g3) \<Rightarrow>
             let g5 = snd (apply_random_event R (consume_food 3 g3));
                 g6 = end_of_day g5
             in (Inr ((snapshot (state g6))
                        \<lparr>snap_messages := [message] @ fst (apply_random_event R (consume_food 3 g3))
                                             @ event_log (state g6),
                         snap_trade_offers := map describe (current_trade_offers g6)\<rparr>),
                 if \<not> is_over g6
                 then maybe_prepare_trade_post R False
                        (g6\<lparr>state := (state g6)\<lparr>day := day (state g6) + 1\<rparr>\<rparr>)
                 else g6))"
  using assms
  by (auto simp: perform_action_def run_handler_def Let_def BASE_FOOD_PER_DAY_def
      split: prod.splits sum.splits)

text \<open>
  C8 as stated fails where there is nothing to trade: \<^verbatim>\<open>_trade\<close> first returns its
  message "There is no trading post available today." and looks at the index only after
  that. Here no offer exists, index 0 is out of range, and the call returns a snapshot.
\<close>

theorem trade_out_of_range_counterexample:
  "\<not> is_over (fresh_banker [])
   \<and> int (length (current_trade_offers (fresh_banker []))) \<le> 0
   \<and> \<not> isl (fst (perform_action replay ''trade'' (no_kwargs\<lparr>kw_offer_index := Some 0\<rparr>)
                    (fresh_banker [])))"
  by code_simp

text \<open>
  C8, amended. In a game that is not over, \<^verbatim>\<open>perform_action('trade', offer_index=i)\<close>
  with an integer \<open>i\<close> that is negative or at least the number of current offers raises
  \<^verbatim>\<open>ValueError\<close> when a trading post is available with at least one offer; when no post
  is available or there is no offer, the call raises nothing, whatever the index.
\<close>

theorem trade_out_of_range:
  assumes "\<not> is_over g" and "strip (lower action) = ''trade''"
    and "kw_offer_index kwargs = Some i"
    and "i < 0 \<or> int (length (current_trade_offers g)) \<le> i"
  shows "if trade_available (state g) \<and> current_trade_offers g \<noteq> []
         then fst (perform_action R action kwargs g) = Inl (ValueError ''Invalid trade offer selection.'')
         else \<not> isl (fst (perform_action R action kwargs g))"
  using assms trade_post_update_weather_and_terrain [of R "g\<lparr>state := (state g)\<lparr>event_log := []\<rparr>\<rparr>"]
  by (auto simp: perform_action_trade trade_def Let_def split: prod.splits)

theorem trade_out_of_range_witness:
  "\<not> is_over ((fresh_banker [])
       \<lparr>state := (state (fresh_banker []))\<lparr>trade_available := True\<rparr>,
        current_trade_offers := [\<lparr>item = ''food'', quantity = 20, price = 40\<rparr>]\<rparr>)
   \<and> strip (lower ''Trade '') = ''trade''
   \<and> kw_offer_index (no_kwargs\<lparr>kw_offer_index := Some 1\<rparr>) = Some 1
   \<and> ((1::int) < 0 \<or> int (length (current_trade_offers ((fresh_banker [])
       \<lparr>state := (state (fresh_banker []))\<lparr>trade_available := True\<rparr>,
        current_trade_offers := [\<lparr>item = ''food'', quantity = 20, price = 40\<rparr>]\<rparr>))) \<le> 1)
   \<and> fst (perform_action replay ''Trade '' (no_kwargs\<lparr>kw_offer_index := Some 1\<rparr>)
        ((fresh_banker [])
           \<lparr>state := (state (fresh_banker []))\<lparr>trade_available := True\<rparr>,
            current_trade_offers := [\<lparr>item = ''food'', quantity = 20, price = 40\<rparr>]\<rparr>))
       = Inl (ValueError ''Invalid trade offer selection.'')"
proof -
  let ?g = "(fresh_banker [])
       \<lparr>state := (state (fresh_banker []))\<lparr>trade_available := True\<rparr>,
        current_trade_offers := [\<lparr>item = ''food'', quantity = 20, price = 40\<rparr>]\<rparr>"
  let ?kw = "no_kwargs\<lparr>kw_offer_index := Some 1\<rparr>"
  have playing: "\<not> is_over ?g" by (simp add: fresh_banker_def)
  have key: "strip (lower ''Trade '') = ''trade''" by code_simp
  have index: "kw_offer_index ?kw = Some 1" by simp
  have range: "(1::int) < 0 \<or> int (length (current_trade_offers ?g)) \<le> 1" by simp
  have post: "trade_available (state ?g) \<and> current_trade_offers ?g \<noteq> []" by simp
  from trade_out_of_range [OF playing key index range, of replay] post
  have "fst (perform_action replay ''Trade '' ?kw ?g) = Inl (ValueError ''Invalid trade offer selection.'')"
    by simp
  with playing key index range show ?thesis by blast
qed

subsection \<open>Hunting with more ammunition than is in stock\<close>

lemma ammo_update_weather_and_terrain:
  "ammo (state (update_weather_and_terrain R g)) = ammo (state g)"
proof -
  obtain r w t where
    "update_weather_and_terrain R g = g\<lparr>rng := r, state := (state g)\<lparr>weather := w, terrain := t\<rparr>\<rparr>"
    using update_weather_and_terrain_shape [of R g] by blast
  then show ?thesis by simp
qed

text \<open>
  C2 as stated fails on the second half: \<^verbatim>\<open>perform_action\<close> clears the event log and
  draws the weather and the terrain of the new day before it calls the handler, so when
  \<^verbatim>\<open>_hunt\<close> raises, two draws are gone and the weather has changed. Here the banker has
  55 ammunition and asks to spend 56.
\<close>

theorem hunt_beyond_stock_counterexample:
  "\<not> is_over (fresh_banker [99 / 100, 99 / 100])
   \<and> ammo (state (fresh_banker [99 / 100, 99 / 100])) < 56
   \<and> fst (perform_action replay ''hunt'' (no_kwargs\<lparr>kw_ammo_spent := Some 56\<rparr>)
            (fresh_banker [99 / 100, 99 / 100]))
       = Inl (ValueError ''Not enough ammunition to hunt.'')
   \<and> weather (state (fresh_banker [99 / 100, 99 / 100])) = ''Mild''
   \<and> weather (state (snd (perform_action replay ''hunt'' (no_kwargs\<lparr>kw_ammo_spent := Some 56\<rparr>)
                             (fresh_banker [99 / 100, 99 / 100])))) = ''Stormy''
   \<and> rng (fresh_banker [99 / 100, 99 / 100]) = [99 / 100, 99 / 100]
   \<and> rng (snd (perform_action replay ''hunt'' (no_kwargs\<lparr>kw_ammo_spent := Some 56\<rparr>)
                 (fresh_banker [99 / 100, 99 / 100]))) = []"
  by code_simp

text \<open>
  C2, amended. In a game that is not over, \<^verbatim>\<open>perform_action('hunt', ammo_spent=n)\<close> with
  \<open>n\<close> above the ammunition in stock raises \<^verbatim>\<open>ValueError\<close>, and leaves the game as it
  was but for the start of the new day: the event log is cleared, the weather and the terrain
  are drawn anew and the random source has advanced by these two draws. Every other field
  (day, distance, food, ammunition, money, health, pace, the flags, the status, the trading
  post and its offers) is as before the call.
\<close>

theorem hunt_beyond_stock:
  assumes "\<not> is_over g" and "strip (lower action) = ''hunt''"
    and "kw_ammo_spent kwargs = Some n" and "ammo (state g) < n"
  shows "fst (perform_action R action kwargs g)
           = Inl (ValueError (if n \<le> 0 then ''Ammo spent must be positive when hunting.''
                              else ''Not enough ammunition to hunt.''))
         \<and> snd (perform_action R action kwargs g)
             = update_weather_and_terrain R (g\<lparr>state := (state g)\<lparr>event_log := []\<rparr>\<rparr>)
         \<and> snd (perform_action R action kwargs g)
             = g\<lparr>rng := rng (snd (perform_action R action kwargs g)),
                 state := (state g)
                   \<lparr>weather := weather (state (snd (perform_action R action kwargs g))),
                    terrain := terrain (state (snd (perform_action R action kwargs g))),
                    event_log := []\<rparr>\<rparr>"
proof -
  let ?g2 = "update_weather_and_terrain R (g\<lparr>state := (state g)\<lparr>event_log := []\<rparr>\<rparr>)"
  let ?e = "ValueError (if n \<le> 0 then ''Ammo spent must be positive when hunting.''
                        else ''Not enough ammunition to hunt.'')"
  from assms(4) have "ammo (state ?g2) < n"
    by (simp add: ammo_update_weather_and_terrain)
  with assms(3) have "hunt R (kw_ammo_spent kwargs) ?g2 = (Inl ?e, ?g2)"
    by (simp add: hunt_def)
  with assms(1,2) have result: "perform_action R action kwargs g = (Inl ?e, ?g2)"
    by (simp add: perform_action_def run_handler_def Let_def)
  obtain r w t where
    "?g2 = (g\<lparr>state := (state g)\<lparr>event_log := []\<rparr>\<rparr>)
             \<lparr>rng := r, state := (state (g\<lparr>state := (state g)\<lparr>event_log := []\<rparr>\<rparr>))\<lparr>weather := w, terrain := t\<rparr>\<rparr>"
    using update_weather_and_terrain_shape [of R "g\<lparr>state := (state g)\<lparr>event_log := []\<rparr>\<rparr>"] by blast
  then have "?g2 = g\<lparr>rng := rng ?g2,
                      state := (state g)\<lparr>weather := weather (state ?g2), terrain := terrain (state ?g2),
                                         event_log := []\<rparr>\<rparr>"
    by simp
  with result show ?thesis by simp
qed

theorem hunt_beyond_stock_witness:
  "\<not> is_over (fresh_banker [99 / 100, 99 / 100])
   \<and> strip (lower ''hunt'') = ''hunt''
   \<and> kw_ammo_spent (no_kwargs\<lparr>kw_ammo_spent := Some 56\<rparr>) = Some 56
   \<and> ammo (state (fresh_banker [99 / 100, 99 / 100])) < 56
   \<and> fst (perform_action replay ''hunt'' (no_kwargs\<lparr>kw_ammo_spent := Some 56\<rparr>)
            (fresh_banker [99 / 100, 99 / 100]))
       = Inl (ValueError ''Not enough ammunition to hunt.'')
   \<and> ammo (state (snd (perform_action replay ''hunt'' (no_kwargs\<lparr>kw_ammo_spent := Some 56\<rparr>)
                          (fresh_banker [99 / 100, 99 / 100])))) = 55"
proof -
  let ?g = "fresh_banker [99 / 100, 99 / 100]"
  let ?kw = "no_kwargs\<lparr>kw_ammo_spent := Some 56\<rparr>"
  have playing: "\<not> is_over ?g" by (simp add: fresh_banker_def)
  have key: "strip (lower ''hunt'') = ''hunt''" by code_simp
  have arg: "kw_ammo_spent ?kw = Some 56" by simp
  have short: "ammo (state ?g) < 56" by (simp add: fresh_banker_def)
  have stock: "ammo (state ?g) = 55" by (simp add: fresh_banker_def)
  note fact = hunt_beyond_stock [OF playing key arg short, of replay]
  from fact [THEN conjunct1]
  have raised: "fst (perform_action replay ''hunt'' ?kw ?g)
      = Inl (ValueError ''Not enough ammunition to hunt.'')" by simp
  from fact [THEN conjunct2, THEN conjunct1]
  have "ammo (state (snd (perform_action replay ''hunt'' ?kw ?g))) = ammo (state ?g)"
    by (simp add: ammo_update_weather_and_terrain)
  with stock raised playing key arg short show ?thesis by simp
qed

subsection \<open>A day on which no random event fires\<close>

lemma apply_random_event_quiet:
  assumes "event_chance g < fst (rs_random R (rng g))"
  shows "apply_random_event R g = ([], g\<lparr>rng := snd (rs_random R (rng g))\<rparr>)"
  using assms by (cases "rs_random R (rng g)") (simp add: apply_random_event_def)

lemma rng_update_weather_and_terrain:
  "rng (update_weather_and_terrain R (g\<lparr>state := s\<rparr>)) = rng (update_weather_and_terrain R g)"
  by (simp add: update_weather_and_terrain_def Let_def split: prod.splits)

text \<open>What the end of the day and the step to the next day leave of the state before them.\<close>

lemma rest_of_day_frame:
  assumes "g' = (if \<not> is_over (end_of_day g5)
                 then maybe_prepare_trade_post R False
                        ((end_of_day g5)\<lparr>state := (state (end_of_day g5))
                                           \<lparr>day := day (state (end_of_day g5)) + 1\<rparr>\<rparr>)
                 else end_of_day g5)"
  shows "food (state g') = food (state g5) \<and> ammo (state g') = ammo (state g5)
    \<and> money (state g') = money (state g5) \<and> distance (state g') = distance (state g5)
    \<and> pace (state g') = pace (state g5) \<and> weather (state g') = weather (state g5)
    \<and> terrain (state g') = terrain (state g5)
    \<and> player_name (state g') = player_name (state g5)
    \<and> profession (state g') = profession (state g5)
    \<and> difficulty (state g') = difficulty (state g5)
    \<and> health (state g') = health (state (end_of_day g5))
    \<and> is_over g' = is_over (end_of_day g5)
    \<and> day (state g') = (if is_over g' then day (state g5) else day (state g5) + 1)"
proof -
  define e where "e = end_of_day g5"
  obtain h l a w s b where
    "end_of_day g5
       = g5\<lparr>state := (state g5)\<lparr>health := h, event_log := l, alive := a, won := w, status := s\<rparr>,
            is_over := b\<rparr>"
    using end_of_day_shape [of g5] by blast
  then have e: "food (state e) = food (state g5)" "ammo (state e) = ammo (state g5)"
    "money (state e) = money (state g5)" "distance (state e) = distance (state g5)"
    "pace (state e) = pace (state g5)" "weather (state e) = weather (state g5)"
    "terrain (state e) = terrain (state g5)" "player_name (state e) = player_name (state g5)"
    "profession (state e) = profession (state g5)" "difficulty (state e) = difficulty (state g5)"
    "day (state e) = day (state g5)"
    by (simp_all add: e_def)
  show ?thesis
  proof (cases "is_over e")
    case True
    with assms have "g' = e" by (simp add: e_def)
    with True e show ?thesis by (simp add: e_def)
  next
    case False
    define n where "n = e\<lparr>state := (state e)\<lparr>day := day (state e) + 1\<rparr>\<rparr>"
    from False assms have g': "g' = maybe_prepare_trade_post R False n"
      by (simp add: e_def n_def)
    obtain r tb offers where
      "maybe_prepare_trade_post R False n
         = n\<lparr>rng := r, state := (state n)\<lparr>trade_available := tb\<rparr>, current_trade_offers := offers\<rparr>"
      using maybe_prepare_trade_post_shape [of R False n] by blast
    with g' have "g' = e\<lparr>rng := r,
                          state := (state e)\<lparr>day := day (state e) + 1, trade_available := tb\<rparr>,
                          current_trade_offers := offers\<rparr>"
      by (simp add: n_def)
    with False e show ?thesis by (simp add: e_def [symmetric])
  qed
qed

lemma health_end_of_day:
  "health (state (end_of_day g))
     = (if food (state g) \<le> 0 then max 0 (health (state g) - starvation_penalty (settings g))
        else health (state g))"
  by (simp add: end_of_day_def starve_def Let_def)

subsection \<open>Resting\<close>

lemma perform_action_rest:
  assumes "\<not> is_over g" and "strip (lower action) = ''rest''"
  shows "perform_action R action kwargs g =
     (let g3 = snd (rest (update_weather_and_terrain R (g\<lparr>state := (state g)\<lparr>event_log := []\<rparr>\<rparr>)));
          g5 = snd (apply_random_event R (consume_food 5 g3));
          g6 = end_of_day g5
      in (Inr ((snapshot (state g6))
                 \<lparr>snap_messages :=
                    [fst (rest (update_weather_and_terrain R (g\<lparr>state := (state g)\<lparr>event_log := []\<rparr>\<rparr>)))]
                    @ fst (apply_random_event R (consume_food 5 g3)) @ event_log (state g6),
                  snap_trade_offers := map describe (current_trade_offers g6)\<rparr>),
          if \<not> is_over g6
          then maybe_prepare_trade_post R False (g6\<lparr>state := (state g6)\<lparr>day := day (state g6) + 1\<rparr>\<rparr>)
          else g6))"
  using assms
  by (auto simp: perform_action_def run_handler_def Let_def BASE_FOOD_PER_DAY_def
      split: prod.splits sum.splits)

text \<open>
  C10 as stated fails: the end of the day follows the rest, so a rest that eats the last food
  is followed by the starvation penalty. Here the banker rests with 3 lbs of food and 50
  health on a day without event: health ends at 52, not at 50 + 12.
\<close>

theorem rest_frame_counterexample:
  "\<not> is_over ((fresh_banker [0, 0, 1 / 2, 1 / 2])\<lparr>state := (state (fresh_banker []))\<lparr>food := 3, health := 50\<rparr>\<rparr>)
   \<and> event_chance ((fresh_banker [0, 0, 1 / 2, 1 / 2])\<lparr>state := (state (fresh_banker []))\<lparr>food := 3, health := 50\<rparr>\<rparr>)
       < 1 / 2
   \<and> \<not> isl (fst (perform_action replay ''rest'' no_kwargs
        ((fresh_banker [0, 0, 1 / 2, 1 / 2])\<lparr>state := (state (fresh_banker []))\<lparr>food := 3, health := 50\<rparr>\<rparr>)))
   \<and> health (state (snd (perform_action replay ''rest'' no_kwargs
        ((fresh_banker [0, 0, 1 / 2, 1 / 2])\<lparr>state := (state (fresh_banker []))\<lparr>food := 3, health := 50\<rparr>\<rparr>)))) = 52
   \<and> min 100 (50 + rest_health (settings (fresh_banker [0, 0, 1 / 2, 1 / 2]))) = 62"
  by code_simp

text \<open>
  C10, amended. In a game that is not over, a \<^verbatim>\<open>perform_action('rest')\<close> whose event
  trigger roll (the third draw of the call, after the weather and the terrain) is above the
  event chance returns a snapshot and leaves ammunition, money, distance and pace (and the
  player's name, profession and difficulty) unchanged. Food becomes
  \<open>max 0 (food - 5)\<close>. Health becomes \<open>min 100 (health + rest_health)\<close>, and is then
  lowered by the starvation penalty, not below 0, when the food left is zero. The day, the
  weather, the terrain, the status, the event log, and also the flags \<open>alive\<close>,
  \<open>won\<close>, the terminal flag, the trading post with its offers and the random source may
  change.
\<close>

theorem rest_frame:
  assumes "\<not> is_over g" and "strip (lower action) = ''rest''"
    and "event_chance g < fst (rs_random R (rng (update_weather_and_terrain R g)))"
  shows "let g' = snd (perform_action R action kwargs g);
             rested = min 100 (health (state g) + rest_health (settings g))
         in \<not> isl (fst (perform_action R action kwargs g))
            \<and> ammo (state g') = ammo (state g) \<and> money (state g') = money (state g)
            \<and> distance (state g') = distance (state g) \<and> pace (state g') = pace (state g)
            \<and> player_name (state g') = player_name (state g)
            \<and> profession (state g') = profession (state g)
            \<and> difficulty (state g') = difficulty (state g)
            \<and> food (state g') = max 0 (food (state g) - 5)
            \<and> health (state g')
                = (if food (state g') \<le> 0 then max 0 (rested - starvation_penalty (settings g))
                   else rested)"
proof -
  define g1 where "g1 = g\<lparr>state := (state g)\<lparr>event_log := []\<rparr>\<rparr>"
  define g2 where "g2 = update_weather_and_terrain R g1"
  define g4 where "g4 = consume_food 5 (snd (rest g2))"
  define g5 where "g5 = snd (apply_random_event R g4)"
  define g' where "g' = snd (perform_action R action kwargs g)"
  obtain r w t where "g2 = g1\<lparr>rng := r, state := (state g1)\<lparr>weather := w, terrain := t\<rparr>\<rparr>"
    using update_weather_and_terrain_shape [of R g1] by (auto simp: g2_def)
  then have g2: "g2 = g\<lparr>rng := r, state := (state g)\<lparr>event_log := [], weather := w, terrain := t\<rparr>\<rparr>"
    by (simp add: g1_def)
  have g4: "g4 = g\<lparr>rng := r,
                   state := (state g)\<lparr>event_log := [], weather := w, terrain := t,
                                      health := min 100 (health (state g) + rest_health (settings g)),
                                      food := max 0 (food (state g) - 5)\<rparr>\<rparr>"
    by (simp add: g4_def snd_rest consume_food_def g2)
  have "rng g4 = rng g2" by (simp add: g4 g2)
  also have "\<dots> = rng (update_weather_and_terrain R g)"
    by (simp add: g2_def g1_def rng_update_weather_and_terrain)
  finally have "event_chance g4 < fst (rs_random R (rng g4))"
    using assms(3) by (simp add: g4)
  then have "apply_random_event R g4 = ([], g4\<lparr>rng := snd (rs_random R (rng g4))\<rparr>)"
    by (rule apply_random_event_quiet)
  then have g5: "g5 = g4\<lparr>rng := snd (rs_random R (rng g4))\<rparr>"
    by (simp add: g5_def)
  from assms(1,2) have result:
    "\<not> isl (fst (perform_action R action kwargs g))"
    "g' = (if \<not> is_over (end_of_day g5)
           then maybe_prepare_trade_post R False
                  ((end_of_day g5)\<lparr>state := (state (end_of_day g5))
                                     \<lparr>day := day (state (end_of_day g5)) + 1\<rparr>\<rparr>)
           else end_of_day g5)"
    by (simp_all add: perform_action_rest Let_def g'_def g5_def g4_def g2_def g1_def)
  note frame = rest_of_day_frame [OF result(2)]
  have fields: "ammo (state g5) = ammo (state g)" "money (state g5) = money (state g)"
    "distance (state g5) = distance (state g)" "pace (state g5) = pace (state g)"
    "player_name (state g5) = player_name (state g)" "profession (state g5) = profession (state g)"
    "difficulty (state g5) = difficulty (state g)"
    "food (state g5) = max 0 (food (state g) - 5)"
    "health (state g5) = min 100 (health (state g) + rest_health (settings g))"
    "settings g5 = settings g"
    by (simp_all add: g5 g4)
  from frame fields result(1) show ?thesis
    by (simp add: Let_def g'_def [symmetric] health_end_of_day)
qed

theorem rest_frame_witness:
  "\<not> is_over (fresh_banker [0, 0, 1 / 2, 1 / 2])
   \<and> strip (lower ''rest'') = ''rest''
   \<and> event_chance (fresh_banker [0, 0, 1 / 2, 1 / 2])
       < fst (rs_random replay (rng (update_weather_and_terrain replay (fresh_banker [0, 0, 1 / 2, 1 / 2]))))
   \<and> \<not> isl (fst (perform_action replay ''rest'' no_kwargs (fresh_banker [0, 0, 1 / 2, 1 / 2])))
   \<and> ammo (state (snd (perform_action replay ''rest'' no_kwargs (fresh_banker [0, 0, 1 / 2, 1 / 2])))) = 55
   \<and> money (state (snd (perform_action replay ''rest'' no_kwargs (fresh_banker [0, 0, 1 / 2, 1 / 2])))) = 1700
   \<and> food (state (snd (perform_action replay ''rest'' no_kwargs (fresh_banker [0, 0, 1 / 2, 1 / 2])))) = 235
   \<and> health (state (snd (perform_action replay ''rest'' no_kwargs (fresh_banker [0, 0, 1 / 2, 1 / 2])))) = 100"
proof -
  let ?g = "fresh_banker [0, 0, 1 / 2, 1 / 2]"
  have playing: "\<not> is_over ?g" by (simp add: fresh_banker_def)
  have key: "strip (lower ''rest'') = ''rest''" by code_simp
  have quiet: "event_chance ?g < fst (rs_random replay (rng (update_weather_and_terrain replay ?g)))"
    by code_simp
  have start: "ammo (state ?g) = 55" "money (state ?g) = 1700" "food (state ?g) = 240"
    "health (state ?g) = 100" "rest_health (settings ?g) = 12"
    by (simp_all add: fresh_banker_def)
  from rest_frame [OF playing key quiet, of no_kwargs] start
  have "\<not> isl (fst (perform_action replay ''rest'' no_kwargs ?g))
    \<and> ammo (state (snd (perform_action replay ''rest'' no_kwargs ?g))) = 55
    \<and> money (state (snd (perform_action replay ''rest'' no_kwargs ?g))) = 1700
    \<and> food (state (snd (perform_action replay ''rest'' no_kwargs ?g))) = 235
    \<and> health (state (snd (perform_action replay ''rest'' no_kwargs ?g))) = 100"
    by (simp add: Let_def)
  with playing key quiet show ?thesis by blast
qed

subsection \<open>Travelling\<close>

lemma perform_action_travel:
  assumes "\<not> is_over g" and "strip (lower action) = ''travel''"
  shows "perform_action R action kwargs g =
     (let g2 = update_weather_and_terrain R (g\<lparr>state := (state g)\<lparr>event_log := []\<rparr>\<rparr>)
      in case travel (case kw_pace kwargs of Some p \<Rightarrow> p | None \<Rightarrow> pace (state g2)) g2 of
           (Inl e, g3) \<Rightarrow> (Inl e, g3)
         | (Inr (message, extra_food), g3) \<Rightarrow>
             let g5 = snd (apply_random_event R (consume_food (5 + extra_food) g3));
                 g6 = end_of_day g5
             in (Inr ((snapshot (state g6))
                        \<lparr>snap_messages :=
                           [message] @ fst (apply_random_event R (consume_food (5 + extra_food) g3))
                           @ event_log (state g6),
                         snap_trade_offers := map describe (current_trade_offers g6)\<rparr>),
                 if \<not> is_over g6
                 then maybe_prepare_trade_post R False
                        (g6\<lparr>state := (state g6)\<lparr>day := day (state g6) + 1\<rparr>\<rparr>)
                 else g6))"
  using assms
  by (auto simp: perform_action_def run_handler_def Let_def BASE_FOOD_PER_DAY_def
      split: prod.splits sum.splits)

lemma travel_valid_pace:
  assumes "map_of PACE_SPEEDS (strip (lower pace_arg)) = Some speed"
  shows "\<exists>message. travel pace_arg g =
     (Inr (message, \<lceil>5 * max 0 (dict_get PACE_FOOD_MULTIPLIER (strip (lower pace_arg)) 0 - 1)\<rceil>),
      g\<lparr>state := (state g)
           \<lparr>distance := distance (state g)
              + max 5 (py_round (of_int speed * weather_modifier g * terrain_modifier g)),
            pace := strip (lower pace_arg)\<rparr>\<rparr>)"
  using assms by (simp add: travel_def Let_def BASE_FOOD_PER_DAY_def)

lemma extra_food_nonneg:
  "0 \<le> \<lceil>5 * max 0 (dict_get PACE_FOOD_MULTIPLIER key 0 - 1)\<rceil>"
proof -
  have "(0::rat) \<le> 5 * max 0 (dict_get PACE_FOOD_MULTIPLIER key 0 - 1)" by simp
  then have "- 1 < 5 * max 0 (dict_get PACE_FOOD_MULTIPLIER key 0 - 1)" by linarith
  then show ?thesis by (simp only: zero_le_ceiling)
qed

text \<open>
  C7 as stated fails twice. Food is floored at zero: a party without food that travels
  still has no food, so food does not decrease (first game below). And an event chance of
  zero does not switch the events off: the trigger test is \<^verbatim>\<open>random() > event_chance\<close>,
  and a roll of exactly 0.0 fires an event; here it is the lost trail, and the distance
  grows by 18 - 10 = 8 miles (second game).
\<close>

theorem travel_effect_counterexample:
  "\<not> is_over ((fresh_banker [0, 0, 1 / 2, 1 / 2])
       \<lparr>state := (state (fresh_banker []))\<lparr>food := 0\<rparr>, event_chance := 0\<rparr>)
   \<and> \<not> isl (fst (perform_action replay ''travel'' (no_kwargs\<lparr>kw_pace := Some ''steady''\<rparr>)
        ((fresh_banker [0, 0, 1 / 2, 1 / 2])
           \<lparr>state := (state (fresh_banker []))\<lparr>food := 0\<rparr>, event_chance := 0\<rparr>)))
   \<and> food (state (snd (perform_action replay ''travel'' (no_kwargs\<lparr>kw_pace := Some ''steady''\<rparr>)
        ((fresh_banker [0, 0, 1 / 2, 1 / 2])
           \<lparr>state := (state (fresh_banker []))\<lparr>food := 0\<rparr>, event_chance := 0\<rparr>)))) = 0
   \<and> \<not> is_over ((fresh_banker [0, 0, 0, 95 / 100, 1 / 2])\<lparr>event_chance := 0\<rparr>)
   \<and> \<not> isl (fst (perform_action replay ''travel'' (no_kwargs\<lparr>kw_pace := Some ''steady''\<rparr>)
        ((fresh_banker [0, 0, 0, 95 / 100, 1 / 2])\<lparr>event_chance := 0\<rparr>)))
   \<and> distance (state ((fresh_banker [0, 0, 0, 95 / 100, 1 / 2])\<lparr>event_chance := 0\<rparr>)) = 0
   \<and> distance (state (snd (perform_action replay ''travel'' (no_kwargs\<lparr>kw_pace := Some ''steady''\<rparr>)
        ((fresh_banker [0, 0, 0, 95 / 100, 1 / 2])\<lparr>event_chance := 0\<rparr>)))) = 8
   \<and> max 5 (py_round (18 * weather_modifier (snd (perform_action replay ''travel''
        (no_kwargs\<lparr>kw_pace := Some ''steady''\<rparr>)
        ((fresh_banker [0, 0, 0, 95 / 100, 1 / 2])\<lparr>event_chance := 0\<rparr>)))
      * terrain_modifier (snd (perform_action replay ''travel''
        (no_kwargs\<lparr>kw_pace := Some ''steady''\<rparr>)
        ((fresh_banker [0, 0, 0, 95 / 100, 1 / 2])\<lparr>event_chance := 0\<rparr>))))) = 18"
  by code_simp

text \<open>
  C7, amended. In a game that is not over, \<^verbatim>\<open>perform_action('travel')\<close> with a valid
  pace (the keyword argument, or the pace of the state when none is passed), on a day whose
  event trigger roll is above the event chance (with the chance held at zero: any roll but
  exactly 0.0), returns a snapshot; distance grows by exactly
  \<open>max 5 (round (speed * weather modifier * terrain modifier))\<close>, for the weather and
  terrain drawn that day, which is at least 5; food becomes
  \<open>max 0 (food - (5 + extra))\<close> with \<open>extra = \<lceil>5 * max 0 (multiplier - 1)\<rceil> \<ge> 0\<close>: it
  decreases by at least 5 when at least 5 lbs were left, and ends at zero otherwise.
\<close>

theorem travel_effect:
  assumes "\<not> is_over g" and "strip (lower action) = ''travel''"
    and "map_of PACE_SPEEDS
           (strip (lower (case kw_pace kwargs of Some p \<Rightarrow> p | None \<Rightarrow> pace (state g)))) = Some speed"
    and "event_chance g < fst (rs_random R (rng (update_weather_and_terrain R g)))"
  shows "let g' = snd (perform_action R action kwargs g);
             miles = max 5 (py_round (of_int speed * weather_modifier g' * terrain_modifier g'));
             extra_food = \<lceil>5 * max 0 (dict_get PACE_FOOD_MULTIPLIER
                 (strip (lower (case kw_pace kwargs of Some p \<Rightarrow> p | None \<Rightarrow> pace (state g)))) 0 - 1)\<rceil>
         in \<not> isl (fst (perform_action R action kwargs g))
            \<and> distance (state g') = distance (state g) + miles \<and> 5 \<le> miles
            \<and> 0 \<le> extra_food
            \<and> food (state g') = max 0 (food (state g) - (5 + extra_food))
            \<and> (5 \<le> food (state g) \<longrightarrow> food (state g') \<le> food (state g) - 5)
            \<and> (food (state g) < 5 \<longrightarrow> food (state g') = 0)"
proof -
  define pace_arg where "pace_arg = (case kw_pace kwargs of Some p \<Rightarrow> p | None \<Rightarrow> pace (state g))"
  define extra_food where
    "extra_food = \<lceil>5 * max 0 (dict_get PACE_FOOD_MULTIPLIER (strip (lower pace_arg)) 0 - 1)\<rceil>"
  define g1 where "g1 = g\<lparr>state := (state g)\<lparr>event_log := []\<rparr>\<rparr>"
  define g2 where "g2 = update_weather_and_terrain R g1"
  define miles where
    "miles = max 5 (py_round (of_int speed * weather_modifier g2 * terrain_modifier g2))"
  define g3 where
    "g3 = g2\<lparr>state := (state g2)\<lparr>distance := distance (state g2) + miles,
                                    pace := strip (lower pace_arg)\<rparr>\<rparr>"
  define g4 where "g4 = consume_food (5 + extra_food) g3"
  define g5 where "g5 = snd (apply_random_event R g4)"
  define g' where "g' = snd (perform_action R action kwargs g)"
  have extra: "0 \<le> extra_food"
    unfolding extra_food_def by (rule extra_food_nonneg)
  obtain r w t where "g2 = g1\<lparr>rng := r, state := (state g1)\<lparr>weather := w, terrain := t\<rparr>\<rparr>"
    using update_weather_and_terrain_shape [of R g1] by (auto simp: g2_def)
  then have g2: "g2 = g\<lparr>rng := r, state := (state g)\<lparr>event_log := [], weather := w, terrain := t\<rparr>\<rparr>"
    by (simp add: g1_def)
  then have arg: "(case kw_pace kwargs of Some p \<Rightarrow> p | None \<Rightarrow> pace (state g2)) = pace_arg"
    by (cases "kw_pace kwargs") (simp_all add: pace_arg_def)
  from assms(3) obtain message where travelled: "travel pace_arg g2 = (Inr (message, extra_food), g3)"
    using travel_valid_pace [of pace_arg speed g2]
    by (auto simp: pace_arg_def extra_food_def g3_def miles_def)
  from extra have g4: "food (state g4) = max 0 (food (state g) - (5 + extra_food))"
    "distance (state g4) = distance (state g) + miles"
    "weather (state g4) = w" "terrain (state g4) = t"
    "rng g4 = rng g2" "event_chance g4 = event_chance g"
    by (simp_all add: g4_def consume_food_def g3_def g2)
  have "rng g2 = rng (update_weather_and_terrain R g)"
    by (simp add: g2_def g1_def rng_update_weather_and_terrain)
  with g4 assms(4) have "event_chance g4 < fst (rs_random R (rng g4))"
    by simp
  then have "apply_random_event R g4 = ([], g4\<lparr>rng := snd (rs_random R (rng g4))\<rparr>)"
    by (rule apply_random_event_quiet)
  then have g5: "g5 = g4\<lparr>rng := snd (rs_random R (rng g4))\<rparr>"
    by (simp add: g5_def)
  from assms(1,2) have result:
    "\<not> isl (fst (perform_action R action kwargs g))"
    "g' = (if \<not> is_over (end_of_day g5)
           then maybe_prepare_trade_post R False
                  ((end_of_day g5)\<lparr>state := (state (end_of_day g5))
                                     \<lparr>day := day (state (end_of_day g5)) + 1\<rparr>\<rparr>)
           else end_of_day g5)"
    by (simp_all add: perform_action_travel Let_def g'_def g2_def [symmetric] g1_def [symmetric]
        arg travelled g5_def g4_def)
  note frame = rest_of_day_frame [OF result(2)]
  from frame g5 g4 have after: "food (state g') = max 0 (food (state g) - (5 + extra_food))"
    "distance (state g') = distance (state g) + miles"
    "weather (state g') = w" "terrain (state g') = t"
    by simp_all
  have "weather_modifier g' = weather_modifier g2" "terrain_modifier g' = terrain_modifier g2"
    by (simp_all add: weather_modifier_def terrain_modifier_def after g2)
  then have miles: "miles = max 5 (py_round (of_int speed * weather_modifier g' * terrain_modifier g'))"
    by (simp add: miles_def)
  have "5 \<le> miles" by (simp add: miles_def)
  with after(1,2) extra miles result(1) show ?thesis
    unfolding Let_def g'_def [symmetric] pace_arg_def [symmetric] extra_food_def [symmetric]
    by auto
qed

theorem travel_effect_witness:
  "\<not> is_over ((fresh_banker [0, 99 / 100, 1 / 2, 1 / 2])\<lparr>event_chance := 0\<rparr>)
   \<and> strip (lower ''travel'') = ''travel''
   \<and> map_of PACE_SPEEDS (strip (lower (case kw_pace (no_kwargs\<lparr>kw_pace := Some ''Grueling''\<rparr>) of
         Some p \<Rightarrow> p
       | None \<Rightarrow> pace (state ((fresh_banker [0, 99 / 100, 1 / 2, 1 / 2])\<lparr>event_chance := 0\<rparr>))))) = Some 24
   \<and> event_chance ((fresh_banker [0, 99 / 100, 1 / 2, 1 / 2])\<lparr>event_chance := 0\<rparr>)
       < fst (rs_random replay (rng (update_weather_and_terrain replay
               ((fresh_banker [0, 99 / 100, 1 / 2, 1 / 2])\<lparr>event_chance := 0\<rparr>))))
   \<and> distance (state (snd (perform_action replay ''travel'' (no_kwargs\<lparr>kw_pace := Some ''Grueling''\<rparr>)
        ((fresh_banker [0, 99 / 100, 1 / 2, 1 / 2])\<lparr>event_chance := 0\<rparr>)))) = 22
   \<and> food (state (snd (perform_action replay ''travel'' (no_kwargs\<lparr>kw_pace := Some ''Grueling''\<rparr>)
        ((fresh_banker [0, 99 / 100, 1 / 2, 1 / 2])\<lparr>event_chance := 0\<rparr>)))) = 233"
proof -
  let ?g = "(fresh_banker [0, 99 / 100, 1 / 2, 1 / 2])\<lparr>event_chance := 0\<rparr>"
  let ?kw = "no_kwargs\<lparr>kw_pace := Some ''Grueling''\<rparr>"
  let ?g' = "snd (perform_action replay ''travel'' ?kw ?g)"
  have playing: "\<not> is_over ?g" by (simp add: fresh_banker_def)
  have key: "strip (lower ''travel'') = ''travel''" by code_simp
  have valid: "map_of PACE_SPEEDS (strip (lower (case kw_pace ?kw of Some p \<Rightarrow> p
       | None \<Rightarrow> pace (state ?g)))) = Some 24"
    by code_simp
  have quiet: "event_chance ?g < fst (rs_random replay (rng (update_weather_and_terrain replay ?g)))"
    by code_simp
  have start: "distance (state ?g) = 0" "food (state ?g) = 240"
    by (simp_all add: fresh_banker_def)
  have day: "max 5 (py_round (of_int 24 * weather_modifier ?g' * terrain_modifier ?g')) = 22"
    "\<lceil>5 * max 0 (dict_get PACE_FOOD_MULTIPLIER (strip (lower (case kw_pace ?kw of Some p \<Rightarrow> p
       | None \<Rightarrow> pace (state ?g)))) 0 - 1)\<rceil> = 2"
    by code_simp+
  from travel_effect [OF playing key valid quiet] start day
  have "distance (state ?g') = 22 \<and> food (state ?g') = 233"
    by (simp add: Let_def)
  with playing key valid quiet show ?thesis by blast
qed

subsection \<open>The snapshot and the step to the next day\<close>






end
